theory Spec2Isabelle
  imports Main "HOL-Library.Sublist"
begin

section \<open>JavaScript values and errors\<close>

text \<open>
  The manifest code works on values typed \<^verbatim>\<open>any\<close>: whatever \<^verbatim>\<open>JSON.parse\<close> returns, plus
  \<^verbatim>\<open>undefined\<close>, which appears in memory (a missing property, an unset optional field)
  although never in a file. An object is an association list in property order; its keys
  are taken to be distinct. Numbers are integers here: no function below computes with them.
\<close>

datatype json =
    JUndefined
  | JNull
  | JBool bool
  | JNum int
  | JStr string
  | JArr "json list"
  | JObj "(string \<times> json) list"

text \<open>
  A thrown value is an error object with its \<^verbatim>\<open>name\<close> and its \<^verbatim>\<open>message\<close>, or any other
  value: JavaScript lets \<^verbatim>\<open>throw\<close> and a rejected promise carry anything, \<^verbatim>\<open>undefined\<close> included.
  \<^verbatim>\<open>new Error(m)\<close> has the name \<^verbatim>\<open>Error\<close>. The message of a \<^verbatim>\<open>TypeError\<close> raised by the
  engine is engine-defined; the model records which operation raised it.
\<close>

datatype error = Err string string | Thrown json

definition Error :: "string \<Rightarrow> error" where
  "Error msg = Err ''Error'' msg"

definition TypeError :: "string \<Rightarrow> error" where
  "TypeError what = Err ''TypeError'' what"

text \<open>JavaScript truthiness, as tested by \<^verbatim>\<open>if (x)\<close>, \<^verbatim>\<open>!x\<close> and \<^verbatim>\<open>x ? a : b\<close>.\<close>

fun truthy :: "json \<Rightarrow> bool" where
  "truthy JUndefined = False"
| "truthy JNull = False"
| "truthy (JBool b) = b"
| "truthy (JNum n) = (n \<noteq> 0)"
| "truthy (JStr s) = (s \<noteq> [])"
| "truthy (JArr xs) = True"
| "truthy (JObj kvs) = True"

text \<open>
  The property read \<^verbatim>\<open>x.k\<close>: a \<^verbatim>\<open>TypeError\<close> on \<^verbatim>\<open>undefined\<close> and \<^verbatim>\<open>null\<close>, the stored value
  or \<^verbatim>\<open>undefined\<close> on an object. On the other values the result is \<^verbatim>\<open>undefined\<close> too: the
  source reads only names (\<^verbatim>\<open>version\<close>, \<^verbatim>\<open>artifacts\<close>, \<^verbatim>\<open>Key\<close>, ...) that no string, number,
  boolean or array has.
\<close>

fun js_get :: "json \<Rightarrow> string \<Rightarrow> error + json" where
  "js_get JUndefined k = Inl (TypeError (''Cannot read properties of undefined (reading '' @ k @ '')''))"
| "js_get JNull k = Inl (TypeError (''Cannot read properties of null (reading '' @ k @ '')''))"
| "js_get (JObj kvs) k = Inr (case map_of kvs k of None \<Rightarrow> JUndefined | Some v \<Rightarrow> v)"
| "js_get v k = Inr JUndefined"

text \<open>
  The reads \<^verbatim>\<open>e.name\<close> and \<^verbatim>\<open>e.message\<close> on a caught value typed \<^verbatim>\<open>any\<close>: the strings of an
  error object, a property read on any other value, which raises on \<^verbatim>\<open>undefined\<close> and \<^verbatim>\<open>null\<close>.
\<close>

fun error_name :: "error \<Rightarrow> error + json" where
  "error_name (Err n m) = Inr (JStr n)"
| "error_name (Thrown v) = js_get v ''name''"

fun error_message :: "error \<Rightarrow> error + json" where
  "error_message (Err n m) = Inr (JStr m)"
| "error_message (Thrown v) = js_get v ''message''"

text \<open>The optional chaining \<^verbatim>\<open>x?.k\<close>: \<^verbatim>\<open>undefined\<close> where \<^verbatim>\<open>x.k\<close> would raise.\<close>

fun js_get_opt :: "json \<Rightarrow> string \<Rightarrow> json" where
  "js_get_opt (JObj kvs) k = (case map_of kvs k of None \<Rightarrow> JUndefined | Some v \<Rightarrow> v)"
| "js_get_opt v k = JUndefined"

text \<open>
  \<^verbatim>\<open>Array.prototype.map\<close> with a callback that may throw: the elements are visited in
  order and the first exception ends the call.
\<close>

fun map_result :: "('a \<Rightarrow> error + 'b) \<Rightarrow> 'a list \<Rightarrow> error + 'b list" where
  "map_result f [] = Inr []"
| "map_result f (x # xs) =
     (case f x of
        Inl e \<Rightarrow> Inl e
      | Inr y \<Rightarrow> (case map_result f xs of Inl e \<Rightarrow> Inl e | Inr ys \<Rightarrow> Inr (y # ys)))"

text \<open>
  \<^verbatim>\<open>tags.map(fn)\<close> on a value typed \<^verbatim>\<open>any\<close>: only an array has \<^verbatim>\<open>map\<close>; on anything else
  the call raises a \<^verbatim>\<open>TypeError\<close>.
\<close>

fun js_array_map :: "(json \<Rightarrow> error + json) \<Rightarrow> json \<Rightarrow> error + json" where
  "js_array_map f (JArr xs) =
     (case map_result f xs of Inl e \<Rightarrow> Inl e | Inr ys \<Rightarrow> Inr (JArr ys))"
| "js_array_map f v = Inl (TypeError ''map is not a function'')"

section \<open>Stack tag patches (Manifest.patchStackTagsOnRead, Manifest.patchStackTagsOnWrite)\<close>

text \<open>
  The callback of \<^verbatim>\<open>patchStackTagsOnRead\<close>:
  \<^verbatim>\<open>(diskTag) => ({ key: diskTag.Key, value: diskTag.Value })\<close>.
\<close>

definition read_tag :: "json \<Rightarrow> error + json" where
  "read_tag diskTag =
     (case js_get diskTag ''Key'' of
        Inl e \<Rightarrow> Inl e
      | Inr k \<Rightarrow>
          (case js_get diskTag ''Value'' of
             Inl e \<Rightarrow> Inl e
           | Inr v \<Rightarrow> Inr (JObj [(''key'', k), (''value'', v)])))"

text \<open>
  The callback of \<^verbatim>\<open>patchStackTagsOnWrite\<close>:
  \<^verbatim>\<open>(memTag) => ('Key' in memTag ? memTag : { Key: memTag.key, Value: memTag.value })\<close>.
  The operator \<^verbatim>\<open>in\<close> raises a \<^verbatim>\<open>TypeError\<close> on a value that is not an object; an array
  is an object without the property \<^verbatim>\<open>Key\<close>.
\<close>

fun write_tag :: "json \<Rightarrow> error + json" where
  "write_tag (JObj kvs) =
     (if ''Key'' \<in> fst ` set kvs then Inr (JObj kvs)
      else Inr (JObj [(''Key'', js_get_opt (JObj kvs) ''key''), (''Value'', js_get_opt (JObj kvs) ''value'')]))"
| "write_tag (JArr xs) = Inr (JObj [(''Key'', JUndefined), (''Value'', JUndefined)])"
| "write_tag v = Inl (TypeError ''Cannot use in operator to search for Key'')"

text \<open>The two functions handed to \<^verbatim>\<open>replaceStackTags\<close>: \<^verbatim>\<open>(tags) => tags.map(...)\<close>.\<close>

definition read_tags :: "json \<Rightarrow> error + json" where
  "read_tags tags = js_array_map read_tag tags"

definition write_tags :: "json \<Rightarrow> error + json" where
  "write_tags tags = js_array_map write_tag tags"

text \<open>
  Well-formed tags. In memory a tag is \<^verbatim>\<open>{ key: string, value: string }\<close>, on disk
  \<^verbatim>\<open>{ Key: string, Value: string }\<close>, with the fields in the order in which the type
  declares them and the patches build them.
\<close>

fun is_mem_tag :: "json \<Rightarrow> bool" where
  "is_mem_tag (JObj [(a, JStr k), (b, JStr v)]) = (a = ''key'' \<and> b = ''value'')"
| "is_mem_tag v = False"

fun is_disk_tag :: "json \<Rightarrow> bool" where
  "is_disk_tag (JObj [(a, JStr k), (b, JStr v)]) = (a = ''Key'' \<and> b = ''Value'')"
| "is_disk_tag v = False"

fun has_Key :: "json \<Rightarrow> bool" where
  "has_Key (JObj kvs) = (''Key'' \<in> fst ` set kvs)"
| "has_Key v = False"

section \<open>Strings\<close>

text \<open>Decimal digits of a natural number, as a template literal prints a non-negative integer.\<close>

fun show_nat :: "nat \<Rightarrow> string" where
  "show_nat n =
     (if n < 10 then [''0123456789'' ! n]
      else show_nat (n div 10) @ [''0123456789'' ! (n mod 10)])"

definition show_int :: "int \<Rightarrow> string" where
  "show_int i = (if i < 0 then CHR ''-'' # show_nat (nat (- i)) else show_nat (nat i))"

text \<open>\<^verbatim>\<open>Array.prototype.join\<close> on strings.\<close>

fun join :: "string \<Rightarrow> string list \<Rightarrow> string" where
  "join sep [] = []"
| "join sep [x] = x"
| "join sep (x # y # ys) = x @ sep @ join sep (y # ys)"

text \<open>
  The string a template literal \<^verbatim>\<open>${x}\<close> prints for a value: an array prints its elements
  separated by commas, with nothing for \<^verbatim>\<open>null\<close> and \<^verbatim>\<open>undefined\<close> elements.
\<close>

fun js_to_string :: "json \<Rightarrow> string" where
  "js_to_string JUndefined = ''undefined''"
| "js_to_string JNull = ''null''"
| "js_to_string (JBool b) = (if b then ''true'' else ''false'')"
| "js_to_string (JNum n) = show_int n"
| "js_to_string (JStr s) = s"
| "js_to_string (JArr xs) =
     join '','' (map (\<lambda>x. if x = JUndefined \<or> x = JNull then [] else js_to_string x) xs)"
| "js_to_string (JObj kvs) = ''[object Object]''"

section \<open>Objects\<close>

text \<open>
  The own enumerable properties of a value, as \<^verbatim>\<open>Object.entries(x)\<close> and the spread
  \<^verbatim>\<open>{...x}\<close> enumerate them: the properties of an object, the indexed elements of an array,
  the indexed characters of a string, nothing for the other values. (\<^verbatim>\<open>Object.entries\<close>
  raises on \<^verbatim>\<open>null\<close> and \<^verbatim>\<open>undefined\<close>; the source calls it on truthy values only.)
\<close>

fun js_entries :: "json \<Rightarrow> (string \<times> json) list" where
  "js_entries (JObj kvs) = kvs"
| "js_entries (JArr xs) = zip (map show_nat [0..<length xs]) xs"
| "js_entries (JStr s) = zip (map show_nat [0..<length s]) (map (\<lambda>c. JStr [c]) s)"
| "js_entries v = []"

text \<open>
  Setting a property in an object literal, \<^verbatim>\<open>{...x, k: v}\<close>: an existing property keeps
  its place and takes the new value, a new one is added last.
\<close>

fun obj_set :: "(string \<times> json) list \<Rightarrow> string \<Rightarrow> json \<Rightarrow> (string \<times> json) list" where
  "obj_set [] k v = [(k, v)]"
| "obj_set ((k', v') # kvs) k v =
     (if k' = k then (k, v) # kvs else (k', v') # obj_set kvs k v)"

text \<open>
  \<^verbatim>\<open>
  function mapValues(xs, fn) {
    if (!xs) { return undefined; }
    const ret = {};
    for (const [k, v] of Object.entries(xs)) { ret[k] = fn(v); }
    return ret;
  }
  \<close>
\<close>

definition mapValues :: "json \<Rightarrow> (json \<Rightarrow> error + json) \<Rightarrow> error + json" where
  "mapValues xs fn =
     (if \<not> truthy xs then Inr JUndefined
      else (case map_result (\<lambda>(k, v). case fn v of Inl e \<Rightarrow> Inl e | Inr v' \<Rightarrow> Inr (k, v'))
                   (js_entries xs) of
              Inl e \<Rightarrow> Inl e
            | Inr ret \<Rightarrow> Inr (JObj ret)))"

text \<open>
  \<^verbatim>\<open>
  function noUndefined(xs) {
    const ret = {};
    for (const [k, v] of Object.entries(xs)) { if (v !== undefined) { ret[k] = v; } }
    return ret;
  }
  \<close>
  It is called on object literals only, whose properties are given here.
\<close>

definition noUndefined :: "(string \<times> json) list \<Rightarrow> json" where
  "noUndefined xs = JObj (filter (\<lambda>(k, v). v \<noteq> JUndefined) xs)"

section \<open>The environment of the manifest module\<close>

text \<open>
  An error collected by the schema validator (\<^verbatim>\<open>jsonschema.ValidationError\<close>). The library
  declares \<^verbatim>\<open>schema: string | Schema\<close>: the schema at which the instance failed, or its id
  when it has one. \<^verbatim>\<open>name\<close> is the keyword that failed (\<^verbatim>\<open>type\<close>, \<^verbatim>\<open>enum\<close>, \<^verbatim>\<open>required\<close>, ...)
  and \<^verbatim>\<open>stack\<close> the printed error.
\<close>

datatype schema_ref = SchemaId string | SchemaObject "(string \<times> json) list"

record ValidationError =
  name :: string
  schema :: schema_ref
  stack :: string

text \<open>
  What the module imports and this development does not define: the JSON files
  (\<^verbatim>\<open>schema/version.json\<close>, \<^verbatim>\<open>cli-version.json\<close>, the three schemas), the two enum members of
  the \<^verbatim>\<open>cloud-assembly\<close> module that \<^verbatim>\<open>replaceStackTags\<close> compares with, and the libraries
  \<^verbatim>\<open>semver\<close>, \<^verbatim>\<open>JSON\<close> and \<^verbatim>\<open>jsonschema\<close>. They are parameters of every function below.

  \<^item> \<^verbatim>\<open>semver_valid\<close> is \<^verbatim>\<open>semver.valid\<close>: the normalised version, or nothing (\<^verbatim>\<open>null\<close>);
    \<^verbatim>\<open>semver_major\<close> is \<^verbatim>\<open>semver.major\<close> on a valid version.
  \<^item> \<^verbatim>\<open>JSON_stringify v n\<close> is \<^verbatim>\<open>JSON.stringify(v, undefined, n)\<close>, with \<open>0\<close> for no indentation.
  \<^item> \<^verbatim>\<open>validator.validate(instance, schema, {preValidateProperty: hook, ...})\<close> walks the
    instance along the schema, calls the hook on each property it visits with the object
    holding the property and the property's name, and collects the errors.
    \<^verbatim>\<open>jsonschema_visits instance schema\<close> is the sequence of these calls, each with the
    properties of the object (the validator looks for properties in objects only) and the
    name, and \<^verbatim>\<open>jsonschema_errors instance schema\<close> is the list of collected errors.
\<close>

record menv =
  SCHEMA_VERSION_revision :: nat
  CLI_VERSION_version :: json
  ASSETS_SCHEMA :: json
  ASSEMBLY_SCHEMA :: json
  INTEG_SCHEMA :: json
  AWS_CLOUDFORMATION_STACK :: string
  STACK_TAGS :: string
  semver_valid :: "json \<Rightarrow> string option"
  semver_major :: "string \<Rightarrow> nat"
  JSON_parse :: "string \<Rightarrow> error + json"
  JSON_stringify :: "json \<Rightarrow> nat \<Rightarrow> string"
  jsonschema_visits :: "json \<Rightarrow> json \<Rightarrow> ((string \<times> json) list \<times> string) list"
  jsonschema_errors :: "json \<Rightarrow> json \<Rightarrow> ValidationError list"

record LoadManifestOptions =
  skipVersionCheck :: "bool option"
  skipEnumCheck :: "bool option"
  topoSort :: "bool option"

text \<open>\<^verbatim>\<open>options?.flag\<close> tested for truth, for an optional options object with optional flags.\<close>

definition flag_set :: "LoadManifestOptions option \<Rightarrow> (LoadManifestOptions \<Rightarrow> bool option) \<Rightarrow> bool" where
  "flag_set options flag =
     (case options of None \<Rightarrow> False | Some opts \<Rightarrow> (case flag opts of None \<Rightarrow> False | Some b \<Rightarrow> b))"

section \<open>Manifest.replaceStackTags\<close>

text \<open>
  The callback on one metadata entry:
  \<^verbatim>\<open>
  if (metadataEntry.type !== STACK_TAGS || !metadataEntry.data) { return metadataEntry; }
  return { ...metadataEntry, data: fn(metadataEntry.data) };
  \<close>
  Once \<^verbatim>\<open>metadataEntry.type\<close> has been read without an exception, reading \<^verbatim>\<open>metadataEntry.data\<close>
  raises none either.
\<close>

definition replaceEntry :: "menv \<Rightarrow> (json \<Rightarrow> error + json) \<Rightarrow> json \<Rightarrow> error + json" where
  "replaceEntry env fn metadataEntry =
     (case js_get metadataEntry ''type'' of
        Inl e \<Rightarrow> Inl e
      | Inr ty \<Rightarrow>
          if ty \<noteq> JStr (STACK_TAGS env) \<or> \<not> truthy (js_get_opt metadataEntry ''data'')
          then Inr metadataEntry
          else (case fn (js_get_opt metadataEntry ''data'') of
                  Inl e \<Rightarrow> Inl e
                | Inr d \<Rightarrow> Inr (JObj (obj_set (js_entries metadataEntry) ''data'' d))))"

text \<open>
  The callback on one artifact:
  \<^verbatim>\<open>
  if (artifact.type !== AWS_CLOUDFORMATION_STACK) { return artifact; }
  return noUndefined({
    ...artifact,
    metadata: mapValues(artifact.metadata, (metadataEntries) => metadataEntries.map(...)),
  });
  \<close>
\<close>

definition replaceArtifact :: "menv \<Rightarrow> (json \<Rightarrow> error + json) \<Rightarrow> json \<Rightarrow> error + json" where
  "replaceArtifact env fn artifact =
     (case js_get artifact ''type'' of
        Inl e \<Rightarrow> Inl e
      | Inr ty \<Rightarrow>
          if ty \<noteq> JStr (AWS_CLOUDFORMATION_STACK env) then Inr artifact
          else (case mapValues (js_get_opt artifact ''metadata'') (js_array_map (replaceEntry env fn)) of
                  Inl e \<Rightarrow> Inl e
                | Inr md \<Rightarrow> Inr (noUndefined (obj_set (js_entries artifact) ''metadata'' md))))"

text \<open>
  \<^verbatim>\<open>
  return noUndefined({
    ...manifest,
    artifacts: mapValues(manifest.artifacts, (artifact) => ...),
  });
  \<close>
\<close>

definition replaceStackTags :: "menv \<Rightarrow> json \<Rightarrow> (json \<Rightarrow> error + json) \<Rightarrow> error + json" where
  "replaceStackTags env manifest fn =
     (case js_get manifest ''artifacts'' of
        Inl e \<Rightarrow> Inl e
      | Inr artifacts \<Rightarrow>
          (case mapValues artifacts (replaceArtifact env fn) of
             Inl e \<Rightarrow> Inl e
           | Inr arts \<Rightarrow> Inr (noUndefined (obj_set (js_entries manifest) ''artifacts'' arts))))"

definition patchStackTagsOnRead :: "menv \<Rightarrow> json \<Rightarrow> error + json" where
  "patchStackTagsOnRead env manifest = replaceStackTags env manifest read_tags"

definition patchStackTagsOnWrite :: "menv \<Rightarrow> json \<Rightarrow> error + json" where
  "patchStackTagsOnWrite env manifest = replaceStackTags env manifest write_tags"

section \<open>Manifest.validate\<close>

definition VERSION_MISMATCH :: string where
  "VERSION_MISMATCH = ''Cloud assembly schema version mismatch''"

text \<open>\<^verbatim>\<open>Manifest.version()\<close>: \<^verbatim>\<open>`${SCHEMA_VERSION.revision}.0.0`\<close>.\<close>

definition version :: "menv \<Rightarrow> string" where
  "version env = show_nat (SCHEMA_VERSION_revision env) @ ''.0.0''"

text \<open>\<^verbatim>\<open>Manifest.cliVersion()\<close>: \<^verbatim>\<open>version ? version : undefined\<close>.\<close>

definition cliVersion :: "menv \<Rightarrow> json" where
  "cliVersion env = (if truthy (CLI_VERSION_version env) then CLI_VERSION_version env else JUndefined)"

text \<open>
  The local function of \<^verbatim>\<open>validate\<close>:
  \<^verbatim>\<open>
  function parseVersion(version) {
    const ver = semver.valid(version);
    if (!ver) { throw new Error(`Invalid semver string: "${version}"`); }
    return ver;
  }
  \<close>
  A valid version is a string; the empty string is falsy as \<^verbatim>\<open>null\<close> is.
\<close>

definition parseVersion :: "menv \<Rightarrow> json \<Rightarrow> error + string" where
  "parseVersion env v =
     (case semver_valid env v of
        None \<Rightarrow> Inl (Error (''Invalid semver string: '' @ [CHR 0x22] @ js_to_string v @ [CHR 0x22]))
      | Some ver \<Rightarrow>
          if ver = [] then Inl (Error (''Invalid semver string: '' @ [CHR 0x22] @ js_to_string v @ [CHR 0x22]))
          else Inr ver)"

text \<open>
  \<^verbatim>\<open>
  validateAssumeRoleAdditionalOptions(instance, key, _schema, _options, _ctx) {
    if (key !== 'assumeRoleAdditionalOptions') { return; }
    const assumeRoleOptions = instance[key];
    if (assumeRoleOptions?.RoleArn) { throw new Error(`RoleArn is not allowed inside '${key}'`); }
    if (assumeRoleOptions?.ExternalId) { throw new Error(`ExternalId is not allowed inside '${key}'`); }
  }
  \<close>
\<close>

definition validateAssumeRoleAdditionalOptions :: "json \<Rightarrow> string \<Rightarrow> error + unit" where
  "validateAssumeRoleAdditionalOptions instance key =
     (if key \<noteq> ''assumeRoleAdditionalOptions'' then Inr ()
      else (case js_get instance key of
              Inl e \<Rightarrow> Inl e
            | Inr assumeRoleOptions \<Rightarrow>
                if truthy (js_get_opt assumeRoleOptions ''RoleArn'')
                then Inl (Error (''RoleArn is not allowed inside '' @ [CHR 0x27] @ key @ [CHR 0x27]))
                else if truthy (js_get_opt assumeRoleOptions ''ExternalId'')
                then Inl (Error (''ExternalId is not allowed inside '' @ [CHR 0x27] @ key @ [CHR 0x27]))
                else Inr ()))"

text \<open>The hook on the properties the validator visits, in order; an exception of the hook leaves the validator.\<close>

fun preValidateProperties :: "((string \<times> json) list \<times> string) list \<Rightarrow> error + unit" where
  "preValidateProperties [] = Inr ()"
| "preValidateProperties ((props, key) # rest) =
     (case validateAssumeRoleAdditionalOptions (JObj props) key of
        Inl e \<Rightarrow> Inl e
      | Inr u \<Rightarrow> preValidateProperties rest)"

text \<open>
  \<^verbatim>\<open>
  function stripEnumErrors(errors) {
    return errors.filter((e) => typeof e.schema === 'string' || !('enum' in e.schema));
  }
  \<close>
\<close>

fun keepError :: "ValidationError \<Rightarrow> bool" where
  "keepError e =
     (case schema e of
        SchemaId i \<Rightarrow> True
      | SchemaObject kvs \<Rightarrow> ''enum'' \<notin> fst ` set kvs)"

definition stripEnumErrors :: "ValidationError list \<Rightarrow> ValidationError list" where
  "stripEnumErrors errors = filter keepError errors"

text \<open>The schema of an error is given inline and carries the keyword \<^verbatim>\<open>enum\<close>.\<close>

fun has_enum :: "schema_ref \<Rightarrow> bool" where
  "has_enum (SchemaId i) = False"
| "has_enum (SchemaObject kvs) = (''enum'' \<in> fst ` set kvs)"

text \<open>
  The second half of \<^verbatim>\<open>validate\<close> (\<^verbatim>\<open>// now validate the format is good.\<close>):
  \<^verbatim>\<open>
  const result = validator.validate(manifest, schema, {
    nestedErrors: true, allowUnknownAttributes: false,
    preValidateProperty: Manifest.validateAssumeRoleAdditionalOptions });
  let errors = result.errors;
  if (options?.skipEnumCheck) { errors = stripEnumErrors(errors); }
  if (errors.length > 0) {
    throw new Error(`Invalid assembly manifest:\n${errors.map((e) => e.stack).join('\n')}`);
  }
  \<close>
\<close>

definition retainedErrors :: "menv \<Rightarrow> json \<Rightarrow> json \<Rightarrow> LoadManifestOptions option \<Rightarrow> ValidationError list" where
  "retainedErrors env manifest sch options =
     (if flag_set options skipEnumCheck then stripEnumErrors (jsonschema_errors env manifest sch)
      else jsonschema_errors env manifest sch)"

definition validateFormat :: "menv \<Rightarrow> json \<Rightarrow> json \<Rightarrow> LoadManifestOptions option \<Rightarrow> error + unit" where
  "validateFormat env manifest sch options =
     (case preValidateProperties (jsonschema_visits env manifest sch) of
        Inl e \<Rightarrow> Inl e
      | Inr u \<Rightarrow>
          let errors = retainedErrors env manifest sch options in
          if length errors > 0
          then Inl (Error (''Invalid assembly manifest:'' @ [CHR 0x0A] @ join [CHR 0x0A] (map stack errors)))
          else Inr ())"

text \<open>
  The message of the version gate:
  \<^verbatim>\<open>
  const cliVersion = manifest.minimumCliVersion;
  let cliWarning = '';
  if (cliVersion) { cliWarning = `. You need at least CLI version ${cliVersion} to read this manifest.`; }
  throw new Error(`${VERSION_MISMATCH}: Maximum schema version supported is ${maxSupported}.x.x, but found ${actual}${cliWarning}`);
  \<close>
\<close>

definition cliWarning :: "json \<Rightarrow> string" where
  "cliWarning minimumCliVersion =
     (if truthy minimumCliVersion
      then ''. You need at least CLI version '' @ js_to_string minimumCliVersion @ '' to read this manifest.''
      else [])"

definition mismatchMessage :: "nat \<Rightarrow> string \<Rightarrow> json \<Rightarrow> string" where
  "mismatchMessage maxSupported actual minimumCliVersion =
     VERSION_MISMATCH @ '': Maximum schema version supported is '' @ show_nat maxSupported
       @ ''.x.x, but found '' @ actual @ cliWarning minimumCliVersion"

text \<open>
  \<^verbatim>\<open>
  const maxSupported = semver.major(parseVersion(Manifest.version()));
  const actual = parseVersion(manifest.version);
  if (maxSupported < semver.major(actual) && !options?.skipVersionCheck) { ... throw ... }
  // now validate the format is good.
  \<close>
  \<^verbatim>\<open>manifest.minimumCliVersion\<close> is read after \<^verbatim>\<open>manifest.version\<close>, hence without an exception.
\<close>

definition validate :: "menv \<Rightarrow> json \<Rightarrow> json \<Rightarrow> LoadManifestOptions option \<Rightarrow> error + unit" where
  "validate env manifest sch options =
     (case parseVersion env (JStr (version env)) of
        Inl e \<Rightarrow> Inl e
      | Inr localVersion \<Rightarrow>
          let maxSupported = semver_major env localVersion in
          (case js_get manifest ''version'' of
             Inl e \<Rightarrow> Inl e
           | Inr v \<Rightarrow>
               (case parseVersion env v of
                  Inl e \<Rightarrow> Inl e
                | Inr actual \<Rightarrow>
                    if maxSupported < semver_major env actual \<and> \<not> flag_set options skipVersionCheck
                    then Inl (Error (mismatchMessage maxSupported actual
                                       (js_get_opt manifest ''minimumCliVersion'')))
                    else validateFormat env manifest sch options)))"

section \<open>Manifest.saveManifest and Manifest.loadManifest\<close>

text \<open>The files: a path holds a text or does not exist.\<close>

type_synonym files = "string \<rightharpoonup> string"

text \<open>
  \<^verbatim>\<open>
  let withVersion = { ...manifest, version: Manifest.version(), minimumCliVersion: Manifest.cliVersion() };
  Manifest.validate(withVersion, schema);
  if (preprocess) { withVersion = preprocess(withVersion); }
  fs.writeFileSync(filePath, JSON.stringify(withVersion, undefined, 2));
  \<close>
  The result is the files after the call, or the exception.
\<close>

definition withVersion :: "menv \<Rightarrow> json \<Rightarrow> json" where
  "withVersion env manifest =
     JObj (obj_set (obj_set (js_entries manifest) ''version'' (JStr (version env)))
             ''minimumCliVersion'' (cliVersion env))"

definition saveManifest ::
  "menv \<Rightarrow> files \<Rightarrow> json \<Rightarrow> string \<Rightarrow> json \<Rightarrow> (json \<Rightarrow> error + json) option \<Rightarrow> error + files" where
  "saveManifest env fs manifest filePath sch preprocess =
     (case validate env (withVersion env manifest) sch None of
        Inl e \<Rightarrow> Inl e
      | Inr u \<Rightarrow>
          (case preprocess of
             None \<Rightarrow> Inr (fs(filePath \<mapsto> JSON_stringify env (withVersion env manifest) 2))
           | Some patch \<Rightarrow>
               (case patch (withVersion env manifest) of
                  Inl e \<Rightarrow> Inl e
                | Inr patched \<Rightarrow> Inr (fs(filePath \<mapsto> JSON_stringify env patched 2)))))"

text \<open>
  \<^verbatim>\<open>
  const contents = fs.readFileSync(filePath, { encoding: 'utf-8' });
  let obj;
  try { obj = JSON.parse(contents); }
  catch (e) { throw new Error(`${e.message}, while parsing ${JSON.stringify(contents)}`); }
  if (preprocess) { obj = preprocess(obj); }
  Manifest.validate(obj, schema, options);
  return obj;
  \<close>
\<close>

definition loadManifest ::
  "menv \<Rightarrow> files \<Rightarrow> string \<Rightarrow> json \<Rightarrow> (json \<Rightarrow> error + json) option
     \<Rightarrow> LoadManifestOptions option \<Rightarrow> error + json" where
  "loadManifest env fs filePath sch preprocess options =
     (case fs filePath of
        None \<Rightarrow> Inl (Error (''ENOENT: no such file or directory, open '' @ [CHR 0x27] @ filePath @ [CHR 0x27]))
      | Some contents \<Rightarrow>
          (case JSON_parse env contents of
             Inl e \<Rightarrow>
               (case error_message e of
                  Inl t \<Rightarrow> Inl t
                | Inr m \<Rightarrow>
                    Inl (Error (js_to_string m @ '', while parsing '' @ JSON_stringify env (JStr contents) 0)))
           | Inr parsed \<Rightarrow>
               (case (case preprocess of None \<Rightarrow> Inr parsed | Some patch \<Rightarrow> patch parsed) of
                  Inl e \<Rightarrow> Inl e
                | Inr obj \<Rightarrow>
                    (case validate env obj sch options of
                       Inl e \<Rightarrow> Inl e
                     | Inr u \<Rightarrow> Inr obj))))"

text \<open>The bound variants for the assembly manifest and the asset manifest.\<close>

definition saveAssemblyManifest :: "menv \<Rightarrow> files \<Rightarrow> json \<Rightarrow> string \<Rightarrow> error + files" where
  "saveAssemblyManifest env fs manifest filePath =
     saveManifest env fs manifest filePath (ASSEMBLY_SCHEMA env) (Some (patchStackTagsOnWrite env))"

definition loadAssemblyManifest ::
  "menv \<Rightarrow> files \<Rightarrow> string \<Rightarrow> LoadManifestOptions option \<Rightarrow> error + json" where
  "loadAssemblyManifest env fs filePath options =
     loadManifest env fs filePath (ASSEMBLY_SCHEMA env) (Some (patchStackTagsOnRead env)) options"

definition saveAssetManifest :: "menv \<Rightarrow> files \<Rightarrow> json \<Rightarrow> string \<Rightarrow> error + files" where
  "saveAssetManifest env fs manifest filePath =
     saveManifest env fs manifest filePath (ASSETS_SCHEMA env) (Some (patchStackTagsOnRead env))"

definition loadAssetManifest :: "menv \<Rightarrow> files \<Rightarrow> string \<Rightarrow> error + json" where
  "loadAssetManifest env fs filePath = loadManifest env fs filePath (ASSETS_SCHEMA env) None None"

section \<open>Container images: the data and the collaborators\<close>

text \<open>
  \<^verbatim>\<open>String.prototype.toLowerCase\<close> and \<^verbatim>\<open>String.prototype.trim\<close>, on ASCII: the letters
  \<^verbatim>\<open>A\<close> to \<^verbatim>\<open>Z\<close> are lowered, and the white space removed at both ends is the space, the
  tab and the line terminators of ASCII.
\<close>

definition toLowerCase :: "string \<Rightarrow> string" where
  "toLowerCase s =
     map (\<lambda>c. if (65::nat) \<le> of_char c \<and> of_char c \<le> (90::nat) then char_of (of_char c + (32::nat)) else c) s"

definition is_space :: "char \<Rightarrow> bool" where
  "is_space c = (c \<in> set [CHR 0x20, CHR 0x09, CHR 0x0A, CHR 0x0B, CHR 0x0C, CHR 0x0D])"

definition trim :: "string \<Rightarrow> string" where
  "trim s = rev (dropWhile is_space (rev (dropWhile is_space s)))"

text \<open>The progress events the handler emits (\<^verbatim>\<open>EventType\<close>, the members the source uses).\<close>

datatype EventType = CHECK | FOUND | CACHED | BUILD | UPLOAD | DEBUG

text \<open>
  The asset (\<^verbatim>\<open>DockerImageManifestEntry\<close>). Every field of the source is optional. The
  destination carries more fields (region, roles), which the handler only passes on.
  The field \<^verbatim>\<open>id\<close> of the asset is \<open>ident\<close> here.
\<close>

type_synonym DockerCacheOption = "string \<times> (string \<times> string) list option"

record DockerImageSource =
  directory :: "string option"
  executable :: "string list option"
  dockerBuildArgs :: "(string \<times> string) list option"
  dockerBuildSecrets :: "(string \<times> string) list option"
  dockerBuildSsh :: "string option"
  dockerBuildTarget :: "string option"
  dockerFile :: "string option"
  networkMode :: "string option"
  platform :: "string option"
  dockerOutputs :: "string list option"
  cacheFrom :: "DockerCacheOption list option"
  cacheTo :: "DockerCacheOption option"
  cacheDisabled :: "bool option"

record DockerImageDestination =
  repositoryName :: string
  imageTag :: string

record DestinationIdentifier =
  assetId :: string
  destinationId :: string

record DockerImageManifestEntry =
  ident :: DestinationIdentifier
  source :: DockerImageSource
  destination :: DockerImageDestination

text \<open>The argument of \<^verbatim>\<open>docker.build\<close>; its fields carry the prefix \<open>b_\<close>.\<close>

record BuildOptions =
  b_directory :: string
  b_tag :: string
  b_buildArgs :: "(string \<times> string) list option"
  b_buildSecrets :: "(string \<times> string) list option"
  b_buildSsh :: "string option"
  b_target :: "string option"
  b_file :: "string option"
  b_networkMode :: "string option"
  b_platform :: "string option"
  b_outputs :: "string list option"
  b_cacheFrom :: "DockerCacheOption list option"
  b_cacheTo :: "DockerCacheOption option"
  b_cacheDisabled :: "bool option"

text \<open>The registry client and the build engine are handles.\<close>

datatype IECRClient = ECRClient nat

datatype Docker = DockerHandle nat

text \<open>
  Every call the code makes to a collaborator, in order, is recorded: the events it emits,
  the calls to the AWS host, to the registry client, to the docker factory, to the build
  engine and to the shell.
\<close>

datatype call =
    EmitMessage EventType string
  | ReplaceAwsPlaceholders DockerImageDestination
  | EcrClient DockerImageDestination "bool option"
  | DiscoverCurrentAccount
  | DescribeRepositories IECRClient string
  | DescribeImages IECRClient string string
  | ForBuild string IECRClient string
  | DockerExists Docker string
  | DockerBuild Docker BuildOptions
  | DockerTag Docker string string
  | Shell "string list" string
  | ForEcrPush string IECRClient string
  | DockerPush Docker string

text \<open>
  The collaborators. What each one answers, and whether cancellation has been requested
  (\<^verbatim>\<open>host.aborted\<close>), may depend on everything that happened before: each takes the calls made
  so far. An answer is a value or the exception raised.
  \<^item> \<^verbatim>\<open>describeRepositories\<close> answers \<^verbatim>\<open>response.repositories\<close>: nothing, or the repositories,
    each with its \<^verbatim>\<open>repositoryUri\<close> or without one.
  \<^item> \<^verbatim>\<open>discoverCurrentAccount\<close> answers the account id, or nothing.
  \<^item> \<^verbatim>\<open>ecrClient\<close> takes the client options of the destination and the flag \<^verbatim>\<open>quiet\<close>.
  \<^item> \<^verbatim>\<open>path_resolve\<close> is \<^verbatim>\<open>path.resolve\<close> and \<^verbatim>\<open>stringify_source\<close> is \<^verbatim>\<open>JSON.stringify\<close> on the
    asset source.
  \<^item> \<^verbatim>\<open>emitMessage\<close> says whether the emit of a message returns or throws. It is consulted
    at the emits that \<^verbatim>\<open>isPublished\<close> reaches: the two of the destination check, inside its
    \<^verbatim>\<open>try\<close>, and the one of its catch block. The emits of the builder and of \<^verbatim>\<open>publish\<close> stand
    outside any \<^verbatim>\<open>try\<close>, and these functions record them as events that return.
\<close>

record host =
  aborted :: "call list \<Rightarrow> bool"
  emitMessage :: "call list \<Rightarrow> EventType \<Rightarrow> string \<Rightarrow> error + unit"
  replaceAwsPlaceholders :: "call list \<Rightarrow> DockerImageDestination \<Rightarrow> error + DockerImageDestination"
  ecrClient :: "call list \<Rightarrow> DockerImageDestination \<Rightarrow> bool option \<Rightarrow> error + IECRClient"
  discoverCurrentAccount :: "call list \<Rightarrow> error + string option"
  describeRepositories :: "call list \<Rightarrow> IECRClient \<Rightarrow> string \<Rightarrow> error + string option list option"
  describeImages :: "call list \<Rightarrow> IECRClient \<Rightarrow> string \<Rightarrow> string \<Rightarrow> error + unit"
  forBuild :: "call list \<Rightarrow> string \<Rightarrow> IECRClient \<Rightarrow> string \<Rightarrow> error + Docker"
  docker_exists :: "call list \<Rightarrow> Docker \<Rightarrow> string \<Rightarrow> error + bool"
  docker_build :: "call list \<Rightarrow> Docker \<Rightarrow> BuildOptions \<Rightarrow> error + unit"
  docker_tag :: "call list \<Rightarrow> Docker \<Rightarrow> string \<Rightarrow> string \<Rightarrow> error + unit"
  forEcrPush :: "call list \<Rightarrow> string \<Rightarrow> IECRClient \<Rightarrow> string \<Rightarrow> error + Docker"
  docker_push :: "call list \<Rightarrow> Docker \<Rightarrow> string \<Rightarrow> error + unit"
  shell :: "call list \<Rightarrow> string list \<Rightarrow> string \<Rightarrow> error + string"
  path_resolve :: "string \<Rightarrow> string \<Rightarrow> string"
  stringify_source :: "DockerImageSource \<Rightarrow> string"

section \<open>ContainerImageBuilder\<close>

text \<open>
  \<^verbatim>\<open>
  private async isImageCached(localTagName) {
    if (await this.docker.exists(localTagName)) {
      this.host.emitMessage(EventType.CACHED, `Cached ${localTagName}`);
      return true;
    }
    return false;
  }
  \<close>
  Every function returns its result, a value or the exception, with the calls made so far.
\<close>

definition isImageCached :: "host \<Rightarrow> Docker \<Rightarrow> string \<Rightarrow> call list \<Rightarrow> (error + bool) \<times> call list" where
  "isImageCached h docker localTagName tr =
     (case docker_exists h tr docker localTagName of
        Inl e \<Rightarrow> (Inl e, tr @ [DockerExists docker localTagName])
      | Inr found \<Rightarrow>
          if found
          then (Inr True, tr @ [DockerExists docker localTagName,
                                 EmitMessage CACHED (''Cached '' @ localTagName)])
          else (Inr False, tr @ [DockerExists docker localTagName]))"

text \<open>
  \<^verbatim>\<open>
  private async buildImage(localTagName) {
    const source = this.asset.source;
    if (!source.directory) {
      throw new Error(`'directory' is expected in the DockerImage asset source, got: ${JSON.stringify(source)}`);
    }
    const fullPath = path.resolve(this.workDir, source.directory);
    this.host.emitMessage(EventType.BUILD, `Building Docker image at ${fullPath}`);
    await this.docker.build({ directory: fullPath, tag: localTagName, ... });
  }
  \<close>
  An empty directory name is falsy, as a missing one is.
\<close>

definition directoryExpected :: "host \<Rightarrow> DockerImageSource \<Rightarrow> error" where
  "directoryExpected h src =
     Error ([CHR 0x27] @ ''directory'' @ [CHR 0x27]
            @ '' is expected in the DockerImage asset source, got: '' @ stringify_source h src)"

definition buildOptions :: "string \<Rightarrow> string \<Rightarrow> DockerImageSource \<Rightarrow> BuildOptions" where
  "buildOptions fullPath localTagName src =
     \<lparr> b_directory = fullPath, b_tag = localTagName,
       b_buildArgs = dockerBuildArgs src, b_buildSecrets = dockerBuildSecrets src,
       b_buildSsh = dockerBuildSsh src, b_target = dockerBuildTarget src,
       b_file = dockerFile src, b_networkMode = networkMode src,
       b_platform = platform src, b_outputs = dockerOutputs src,
       b_cacheFrom = cacheFrom src, b_cacheTo = cacheTo src,
       b_cacheDisabled = cacheDisabled src \<rparr>"

definition buildImage ::
  "host \<Rightarrow> Docker \<Rightarrow> string \<Rightarrow> DockerImageManifestEntry \<Rightarrow> string \<Rightarrow> call list
     \<Rightarrow> (error + unit) \<times> call list" where
  "buildImage h docker workDir asset localTagName tr =
     (case directory (source asset) of
        None \<Rightarrow> (Inl (directoryExpected h (source asset)), tr)
      | Some dir \<Rightarrow>
          if dir = [] then (Inl (directoryExpected h (source asset)), tr)
          else
            let fullPath = path_resolve h workDir dir;
                tr1 = tr @ [EmitMessage BUILD (''Building Docker image at '' @ fullPath)];
                opts = buildOptions fullPath localTagName (source asset)
            in (case docker_build h tr1 docker opts of
                  Inl e \<Rightarrow> (Inl e, tr1 @ [DockerBuild docker opts])
                | Inr u \<Rightarrow> (Inr (), tr1 @ [DockerBuild docker opts])))"

text \<open>
  \<^verbatim>\<open>
  private async buildDirectoryAsset() {
    const localTagName = `cdkasset-${this.asset.id.assetId.toLowerCase()}`;
    if (!(await this.isImageCached(localTagName))) {
      if (this.host.aborted) { return undefined; }
      await this.buildImage(localTagName);
    }
    return localTagName;
  }
  \<close>
\<close>

definition localTag :: "DockerImageManifestEntry \<Rightarrow> string" where
  "localTag asset = ''cdkasset-'' @ toLowerCase (assetId (ident asset))"

definition buildDirectoryAsset ::
  "host \<Rightarrow> Docker \<Rightarrow> string \<Rightarrow> DockerImageManifestEntry \<Rightarrow> call list
     \<Rightarrow> (error + string option) \<times> call list" where
  "buildDirectoryAsset h docker workDir asset tr =
     (let localTagName = localTag asset in
      case isImageCached h docker localTagName tr of
        (Inl e, tr1) \<Rightarrow> (Inl e, tr1)
      | (Inr cached, tr1) \<Rightarrow>
          if \<not> cached then
            (if aborted h tr1 then (Inr None, tr1)
             else (case buildImage h docker workDir asset localTagName tr1 of
                     (Inl e, tr2) \<Rightarrow> (Inl e, tr2)
                   | (Inr u, tr2) \<Rightarrow> (Inr (Some localTagName), tr2)))
          else (Inr (Some localTagName), tr1))"

text \<open>
  \<^verbatim>\<open>
  private async buildExternalAsset(executable, cwd?) {
    const assetPath = cwd ?? this.workDir;
    this.host.emitMessage(EventType.BUILD, `Building Docker image using command '${executable}'`);
    if (this.host.aborted) { return undefined; }
    const shellEventPublisher = shellEventPublisherFromEventEmitter(this.host.emitMessage);
    return (await shell(executable, { cwd: assetPath, shellEventPublisher,
                                      subprocessOutputDestination: 'ignore' })).trim();
  }
  \<close>
  The template prints the command vector with commas between its words.
\<close>

definition buildExternalAsset ::
  "host \<Rightarrow> string \<Rightarrow> string list \<Rightarrow> string option \<Rightarrow> call list
     \<Rightarrow> (error + string option) \<times> call list" where
  "buildExternalAsset h workDir command cwd tr =
     (let assetPath = (case cwd of None \<Rightarrow> workDir | Some c \<Rightarrow> c);
          tr1 = tr @ [EmitMessage BUILD (''Building Docker image using command ''
                        @ [CHR 0x27] @ join '','' command @ [CHR 0x27])]
      in if aborted h tr1 then (Inr None, tr1)
         else (case shell h tr1 command assetPath of
                 Inl e \<Rightarrow> (Inl e, tr1 @ [Shell command assetPath])
               | Inr out \<Rightarrow> (Inr (Some (trim out)), tr1 @ [Shell command assetPath])))"

text \<open>
  \<^verbatim>\<open>
  async build() {
    return this.asset.source.executable
      ? this.buildExternalAsset(this.asset.source.executable)
      : this.buildDirectoryAsset();
  }
  \<close>
  A command vector is an array, hence truthy whenever it is present.
\<close>

definition builder_build ::
  "host \<Rightarrow> Docker \<Rightarrow> string \<Rightarrow> DockerImageManifestEntry \<Rightarrow> call list
     \<Rightarrow> (error + string option) \<times> call list" where
  "builder_build h docker workDir asset tr =
     (case executable (source asset) of
        Some command \<Rightarrow> buildExternalAsset h workDir command None tr
      | None \<Rightarrow> buildDirectoryAsset h docker workDir asset tr)"

section \<open>ContainerImageAssetHandler\<close>

record ContainerImageAssetHandlerInit =
  ecr :: IECRClient
  repoUri :: string
  imageUri :: string
  destinationAlreadyExists :: bool

text \<open>
  The handler: its constructor arguments (the host is the parameter \<open>h\<close> of every function;
  of the options only \<^verbatim>\<open>subprocessOutputDestination\<close> is read) and the memoized \<^verbatim>\<open>init\<close>.
\<close>

record ContainerImageAssetHandler =
  workDir :: string
  asset :: DockerImageManifestEntry
  subprocessOutputDestination :: string
  init :: "ContainerImageAssetHandlerInit option"

text \<open>
  \<^verbatim>\<open>
  async function imageExists(ecr, repositoryName, imageTag) {
    try { await ecr.describeImages({ repositoryName, imageIds: [{ imageTag }] }); return true; }
    catch (e) { if (e.name !== 'ImageNotFoundException') { throw e; } return false; }
  }
  \<close>
\<close>

definition imageExists ::
  "host \<Rightarrow> IECRClient \<Rightarrow> string \<Rightarrow> string \<Rightarrow> call list \<Rightarrow> (error + bool) \<times> call list" where
  "imageExists h client repo tag tr =
     (case describeImages h tr client repo tag of
        Inr u \<Rightarrow> (Inr True, tr @ [DescribeImages client repo tag])
      | Inl e \<Rightarrow>
          (case error_name e of
             Inl t \<Rightarrow> (Inl t, tr @ [DescribeImages client repo tag])
           | Inr n \<Rightarrow>
               if n \<noteq> JStr ''ImageNotFoundException'' then (Inl e, tr @ [DescribeImages client repo tag])
               else (Inr False, tr @ [DescribeImages client repo tag])))"

text \<open>
  \<^verbatim>\<open>
  async function repositoryUri(ecr, repositoryName) {
    try {
      const response = await ecr.describeRepositories({ repositoryNames: [repositoryName] });
      return (response.repositories || [])[0]?.repositoryUri;
    } catch (e) { if (e.name !== 'RepositoryNotFoundException') { throw e; } return undefined; }
  }
  \<close>
\<close>

definition repositoryUri ::
  "host \<Rightarrow> IECRClient \<Rightarrow> string \<Rightarrow> call list \<Rightarrow> (error + string option) \<times> call list" where
  "repositoryUri h client repo tr =
     (case describeRepositories h tr client repo of
        Inr repositories \<Rightarrow>
          (Inr (case repositories of None \<Rightarrow> None | Some [] \<Rightarrow> None | Some (r # rs) \<Rightarrow> r),
           tr @ [DescribeRepositories client repo])
      | Inl e \<Rightarrow>
          (case error_name e of
             Inl t \<Rightarrow> (Inl t, tr @ [DescribeRepositories client repo])
           | Inr n \<Rightarrow>
               if n \<noteq> JStr ''RepositoryNotFoundException''
               then (Inl e, tr @ [DescribeRepositories client repo])
               else (Inr None, tr @ [DescribeRepositories client repo])))"

text \<open>
  The method \<^verbatim>\<open>destinationAlreadyExists(ecr, destination, imageUri)\<close>:
  \<^verbatim>\<open>
  this.host.emitMessage(EventType.CHECK, `Check ${imageUri}`);
  if (await imageExists(ecr, destination.repositoryName, destination.imageTag)) {
    this.host.emitMessage(EventType.FOUND, `Found ${imageUri}`);
    return true;
  }
  return false;
  \<close>
\<close>

definition checkDestinationAlreadyExists ::
  "host \<Rightarrow> IECRClient \<Rightarrow> DockerImageDestination \<Rightarrow> string \<Rightarrow> call list
     \<Rightarrow> (error + bool) \<times> call list" where
  "checkDestinationAlreadyExists h client dest uri tr =
     (case emitMessage h tr CHECK (''Check '' @ uri) of
        Inl e \<Rightarrow> (Inl e, tr @ [EmitMessage CHECK (''Check '' @ uri)])
      | Inr u \<Rightarrow>
          (case imageExists h client (repositoryName dest) (imageTag dest)
                  (tr @ [EmitMessage CHECK (''Check '' @ uri)]) of
             (Inl e, tr1) \<Rightarrow> (Inl e, tr1)
           | (Inr found, tr1) \<Rightarrow>
               if found then
                 (case emitMessage h tr1 FOUND (''Found '' @ uri) of
                    Inl e \<Rightarrow> (Inl e, tr1 @ [EmitMessage FOUND (''Found '' @ uri)])
                  | Inr u \<Rightarrow> (Inr True, tr1 @ [EmitMessage FOUND (''Found '' @ uri)]))
               else (Inr False, tr1)))"

text \<open>
  \<^verbatim>\<open>
  private async initOnce(options = {}) {
    if (this.init) { return this.init; }
    const destination = await replaceAwsPlaceholders(this.asset.destination, this.host.aws);
    const ecr = await this.host.aws.ecrClient({ ...destinationToClientOptions(destination), quiet: options.quiet });
    const account = async () => (await this.host.aws.discoverCurrentAccount())?.accountId;
    const repoUri = await repositoryUri(ecr, destination.repositoryName);
    if (!repoUri) {
      throw new Error(`No ECR repository named '${destination.repositoryName}' in account ${await account()}. Is this account bootstrapped?`);
    }
    const imageUri = `${repoUri}:${destination.imageTag}`;
    this.init = { imageUri, ecr, repoUri,
                  destinationAlreadyExists: await this.destinationAlreadyExists(ecr, destination, imageUri) };
    return this.init;
  }
  \<close>
  The result comes with the handler, whose \<^verbatim>\<open>init\<close> is set only when the function returns.
\<close>

definition noRepository :: "string \<Rightarrow> string option \<Rightarrow> error" where
  "noRepository repo account =
     Error (''No ECR repository named '' @ [CHR 0x27] @ repo @ [CHR 0x27] @ '' in account ''
            @ (case account of None \<Rightarrow> ''undefined'' | Some a \<Rightarrow> a)
            @ ''. Is this account bootstrapped?'')"

definition initOnce ::
  "host \<Rightarrow> ContainerImageAssetHandler \<Rightarrow> bool option \<Rightarrow> call list
     \<Rightarrow> (error + ContainerImageAssetHandlerInit) \<times> ContainerImageAssetHandler \<times> call list" where
  "initOnce h this quiet tr =
     (case init this of
        Some i \<Rightarrow> (Inr i, this, tr)
      | None \<Rightarrow>
          let tr1 = tr @ [ReplaceAwsPlaceholders (destination (asset this))] in
          (case replaceAwsPlaceholders h tr (destination (asset this)) of
             Inl e \<Rightarrow> (Inl e, this, tr1)
           | Inr dest \<Rightarrow>
               let tr2 = tr1 @ [EcrClient dest quiet] in
               (case ecrClient h tr1 dest quiet of
                  Inl e \<Rightarrow> (Inl e, this, tr2)
                | Inr client \<Rightarrow>
                    (case repositoryUri h client (repositoryName dest) tr2 of
                       (Inl e, tr3) \<Rightarrow> (Inl e, this, tr3)
                     | (Inr uri, tr3) \<Rightarrow>
                         if uri = None \<or> uri = Some [] then
                           (case discoverCurrentAccount h tr3 of
                              Inl e \<Rightarrow> (Inl e, this, tr3 @ [DiscoverCurrentAccount])
                            | Inr account \<Rightarrow>
                                (Inl (noRepository (repositoryName dest) account), this,
                                 tr3 @ [DiscoverCurrentAccount]))
                         else
                           let image = the uri @ '':'' @ imageTag dest in
                           (case checkDestinationAlreadyExists h client dest image tr3 of
                              (Inl e, tr4) \<Rightarrow> (Inl e, this, tr4)
                            | (Inr found, tr4) \<Rightarrow>
                                let i = \<lparr> ecr = client, repoUri = the uri, imageUri = image,
                                          destinationAlreadyExists = found \<rparr>
                                in (Inr i, this\<lparr>init := Some i\<rparr>, tr4))))))"

text \<open>
  \<^verbatim>\<open>
  public async build() {
    const initOnce = await this.initOnce();
    if (initOnce.destinationAlreadyExists) { return; }
    if (this.host.aborted) { return; }
    const dockerForBuilding = await this.host.dockerFactory.forBuild({ repoUri: initOnce.repoUri,
      eventEmitter: ..., ecr: initOnce.ecr,
      subprocessOutputDestination: this.options.subprocessOutputDestination });
    const builder = new ContainerImageBuilder(dockerForBuilding, this.workDir, this.asset, this.host);
    const localTagName = await builder.build();
    if (localTagName === undefined || this.host.aborted) { return; }
    if (this.host.aborted) { return; }
    await dockerForBuilding.tag(localTagName, initOnce.imageUri);
  }
  \<close>
\<close>

definition build ::
  "host \<Rightarrow> ContainerImageAssetHandler \<Rightarrow> call list
     \<Rightarrow> (error + unit) \<times> ContainerImageAssetHandler \<times> call list" where
  "build h this tr =
     (case initOnce h this None tr of
        (Inl e, this1, tr1) \<Rightarrow> (Inl e, this1, tr1)
      | (Inr i, this1, tr1) \<Rightarrow>
          if destinationAlreadyExists i then (Inr (), this1, tr1)
          else if aborted h tr1 then (Inr (), this1, tr1)
          else
            let tr2 = tr1 @ [ForBuild (repoUri i) (ecr i) (subprocessOutputDestination this1)] in
            (case forBuild h tr1 (repoUri i) (ecr i) (subprocessOutputDestination this1) of
               Inl e \<Rightarrow> (Inl e, this1, tr2)
             | Inr dockerForBuilding \<Rightarrow>
                 (case builder_build h dockerForBuilding (workDir this1) (asset this1) tr2 of
                    (Inl e, tr3) \<Rightarrow> (Inl e, this1, tr3)
                  | (Inr None, tr3) \<Rightarrow> (Inr (), this1, tr3)
                  | (Inr (Some localTagName), tr3) \<Rightarrow>
                      if aborted h tr3 then (Inr (), this1, tr3)
                      else if aborted h tr3 then (Inr (), this1, tr3)
                      else
                        (case docker_tag h tr3 dockerForBuilding localTagName (imageUri i) of
                           Inl e \<Rightarrow> (Inl e, this1, tr3 @ [DockerTag dockerForBuilding localTagName (imageUri i)])
                         | Inr u \<Rightarrow> (Inr (), this1, tr3 @ [DockerTag dockerForBuilding localTagName (imageUri i)])))))"

text \<open>
  \<^verbatim>\<open>
  public async isPublished() {
    try {
      const initOnce = await this.initOnce({ quiet: true });
      return initOnce.destinationAlreadyExists;
    } catch (e) {
      this.host.emitMessage(EventType.DEBUG, `${e.message}`);
    }
    return false;
  }
  \<close>
  The catch block can raise itself: \<^verbatim>\<open>e.message\<close> raises a \<^verbatim>\<open>TypeError\<close> when the caught value is
  \<^verbatim>\<open>undefined\<close> or \<^verbatim>\<open>null\<close>, and \<^verbatim>\<open>host.emitMessage\<close> may throw. Nothing catches these.
\<close>

definition isPublished ::
  "host \<Rightarrow> ContainerImageAssetHandler \<Rightarrow> call list
     \<Rightarrow> (error + bool) \<times> ContainerImageAssetHandler \<times> call list" where
  "isPublished h this tr =
     (case initOnce h this (Some True) tr of
        (Inr i, this1, tr1) \<Rightarrow> (Inr (destinationAlreadyExists i), this1, tr1)
      | (Inl e, this1, tr1) \<Rightarrow>
          (case error_message e of
             Inl t \<Rightarrow> (Inl t, this1, tr1)
           | Inr m \<Rightarrow>
               (case emitMessage h tr1 DEBUG (js_to_string m) of
                  Inl t \<Rightarrow> (Inl t, this1, tr1 @ [EmitMessage DEBUG (js_to_string m)])
                | Inr u \<Rightarrow> (Inr False, this1, tr1 @ [EmitMessage DEBUG (js_to_string m)]))))"

text \<open>
  \<^verbatim>\<open>
  public async publish() {
    const initOnce = await this.initOnce();
    if (initOnce.destinationAlreadyExists) { return; }
    if (this.host.aborted) { return; }
    const dockerForPushing = await this.host.dockerFactory.forEcrPush({ repoUri: initOnce.repoUri,
      eventEmitter: this.host.emitMessage, ecr: initOnce.ecr,
      subprocessOutputDestination: this.options.subprocessOutputDestination });
    if (this.host.aborted) { return; }
    this.host.emitMessage(EventType.UPLOAD, `Push ${initOnce.imageUri}`);
    await dockerForPushing.push({ tag: initOnce.imageUri });
  }
  \<close>
\<close>

definition publish ::
  "host \<Rightarrow> ContainerImageAssetHandler \<Rightarrow> call list
     \<Rightarrow> (error + unit) \<times> ContainerImageAssetHandler \<times> call list" where
  "publish h this tr =
     (case initOnce h this None tr of
        (Inl e, this1, tr1) \<Rightarrow> (Inl e, this1, tr1)
      | (Inr i, this1, tr1) \<Rightarrow>
          if destinationAlreadyExists i then (Inr (), this1, tr1)
          else if aborted h tr1 then (Inr (), this1, tr1)
          else
            let tr2 = tr1 @ [ForEcrPush (repoUri i) (ecr i) (subprocessOutputDestination this1)] in
            (case forEcrPush h tr1 (repoUri i) (ecr i) (subprocessOutputDestination this1) of
               Inl e \<Rightarrow> (Inl e, this1, tr2)
             | Inr dockerForPushing \<Rightarrow>
                 if aborted h tr2 then (Inr (), this1, tr2)
                 else
                   let tr3 = tr2 @ [EmitMessage UPLOAD (''Push '' @ imageUri i)] in
                   (case docker_push h tr3 dockerForPushing (imageUri i) of
                      Inl e \<Rightarrow> (Inl e, this1, tr3 @ [DockerPush dockerForPushing (imageUri i)])
                    | Inr u \<Rightarrow> (Inr (), this1, tr3 @ [DockerPush dockerForPushing (imageUri i)]))))"

text \<open>
  The calls that reach the build engine (the docker factory, the engine itself, the shell
  that runs an external build command) and the calls that change the registry (a push).
  The registry client itself is only read (\<^verbatim>\<open>describeRepositories\<close>, \<^verbatim>\<open>describeImages\<close>).
\<close>

fun is_build_engine_call :: "call \<Rightarrow> bool" where
  "is_build_engine_call (ForBuild uri client dst) = True"
| "is_build_engine_call (DockerExists d t) = True"
| "is_build_engine_call (DockerBuild d opts) = True"
| "is_build_engine_call (DockerTag d l r) = True"
| "is_build_engine_call (Shell command cwd) = True"
| "is_build_engine_call c = False"

fun is_registry_mutating_call :: "call \<Rightarrow> bool" where
  "is_registry_mutating_call (ForEcrPush uri client dst) = True"
| "is_registry_mutating_call (DockerPush d t) = True"
| "is_registry_mutating_call c = False"


section \<open>Example collaborators and inputs\<close>

text \<open>
  Concrete collaborators and inputs, on which the theorems below are instantiated. The host
  never requests cancellation, resolves every repository, finds the image in the registry
  or not as \<open>found\<close> says, has an empty local build cache, and its shell prints an image id.
\<close>

definition example_host :: "bool \<Rightarrow> host" where
  "example_host found =
     \<lparr> aborted = (\<lambda>tr. False),
       emitMessage = (\<lambda>tr t m. Inr ()),
       replaceAwsPlaceholders = (\<lambda>tr d. Inr d),
       ecrClient = (\<lambda>tr d q. Inr (ECRClient 0)),
       discoverCurrentAccount = (\<lambda>tr. Inr (Some ''123456789012'')),
       describeRepositories = (\<lambda>tr c r. Inr (Some [Some (''registry.example/'' @ r)])),
       describeImages = (\<lambda>tr c r t. if found then Inr ()
                           else Inl (Err ''ImageNotFoundException'' ''image not found'')),
       forBuild = (\<lambda>tr u c d. Inr (DockerHandle 0)),
       docker_exists = (\<lambda>tr d t. Inr False),
       docker_build = (\<lambda>tr d opts. Inr ()),
       docker_tag = (\<lambda>tr d l r. Inr ()),
       forEcrPush = (\<lambda>tr u c d. Inr (DockerHandle 1)),
       docker_push = (\<lambda>tr d t. Inr ()),
       shell = (\<lambda>tr command cwd. Inr (''sha256:abc'' @ [CHR 0x0A])),
       path_resolve = (\<lambda>w d. w @ ''/'' @ d),
       stringify_source = (\<lambda>src. ''{}'') \<rparr>"

text \<open>A host whose AWS client cannot be created.\<close>

definition failing_host :: host where
  "failing_host =
     (example_host False)
       \<lparr> ecrClient := (\<lambda>tr d q. Inl (Err ''CredentialsProviderError'' ''Could not load credentials'')) \<rparr>"

text \<open>
  A host whose AWS client is rejected with \<^verbatim>\<open>undefined\<close>, and a host whose AWS client cannot be
  created and whose emit of a message throws.
\<close>

definition rejecting_host :: host where
  "rejecting_host = (example_host False) \<lparr> ecrClient := (\<lambda>tr d q. Inl (Thrown JUndefined)) \<rparr>"

definition mute_host :: host where
  "mute_host = failing_host \<lparr> emitMessage := (\<lambda>tr t m. Inl (Err ''Error'' ''listener failed'')) \<rparr>"

definition example_source :: "string option \<Rightarrow> string list option \<Rightarrow> DockerImageSource" where
  "example_source dir command =
     \<lparr> directory = dir, executable = command, dockerBuildArgs = None, dockerBuildSecrets = None,
       dockerBuildSsh = None, dockerBuildTarget = None, dockerFile = None, networkMode = None,
       platform = None, dockerOutputs = None, cacheFrom = None, cacheTo = None, cacheDisabled = None \<rparr>"

definition example_asset :: "string option \<Rightarrow> string list option \<Rightarrow> DockerImageManifestEntry" where
  "example_asset dir command =
     \<lparr> ident = \<lparr> assetId = ''ABC123'', destinationId = ''current'' \<rparr>,
       source = example_source dir command,
       destination = \<lparr> repositoryName = ''myrepo'', imageTag = ''latest'' \<rparr> \<rparr>"

definition example_handler :: "string option \<Rightarrow> string list option \<Rightarrow> ContainerImageAssetHandler" where
  "example_handler dir command =
     \<lparr> workDir = ''/work'', asset = example_asset dir command,
       subprocessOutputDestination = ''stdio'', init = None \<rparr>"

text \<open>
  A stand-in for \<^verbatim>\<open>semver\<close>: a version is \<^verbatim>\<open>MAJOR.MINOR.PATCH\<close>, three decimal numbers without
  leading zeros.
\<close>

fun split_dot :: "string \<Rightarrow> string list" where
  "split_dot [] = [[]]"
| "split_dot (c # cs) =
     (if c = CHR ''.'' then [] # split_dot cs
      else (case split_dot cs of [] \<Rightarrow> [[c]] | p # ps \<Rightarrow> (c # p) # ps))"

definition is_digit :: "char \<Rightarrow> bool" where
  "is_digit c = ((48::nat) \<le> of_char c \<and> of_char c \<le> (57::nat))"

definition nat_of_digits :: "string \<Rightarrow> nat" where
  "nat_of_digits s = foldl (\<lambda>n c. 10 * n + (of_char c - 48)) 0 s"

definition is_numeric :: "string \<Rightarrow> bool" where
  "is_numeric s = (s \<noteq> [] \<and> list_all is_digit s \<and> (length s = 1 \<or> hd s \<noteq> CHR ''0''))"

definition example_semver_valid :: "json \<Rightarrow> string option" where
  "example_semver_valid v =
     (case v of
        JStr s \<Rightarrow> if length (split_dot s) = 3 \<and> list_all is_numeric (split_dot s) then Some s else None
      | _ \<Rightarrow> None)"

definition example_semver_major :: "string \<Rightarrow> nat" where
  "example_semver_major s = nat_of_digits (hd (split_dot s))"

text \<open>
  A stand-in for \<^verbatim>\<open>JSON\<close>: values print without white space (whatever the indentation asked
  for) and without escapes, properties holding \<^verbatim>\<open>undefined\<close> are left out, and a text parses
  to the one of the given documents that prints as this text.
\<close>

definition quote :: "string \<Rightarrow> string" where
  "quote s = [CHR 0x22] @ s @ [CHR 0x22]"

fun example_stringify :: "json \<Rightarrow> string" where
  "example_stringify JUndefined = ''undefined''"
| "example_stringify JNull = ''null''"
| "example_stringify (JBool b) = (if b then ''true'' else ''false'')"
| "example_stringify (JNum n) = show_int n"
| "example_stringify (JStr s) = quote s"
| "example_stringify (JArr xs) =
     ''['' @ join '','' (map (\<lambda>x. if x = JUndefined then ''null'' else example_stringify x) xs) @ '']''"
| "example_stringify (JObj kvs) =
     ''{'' @ join '','' (map (\<lambda>kv. quote (fst kv) @ '':'' @ example_stringify (snd kv))
                           (filter (\<lambda>kv. snd kv \<noteq> JUndefined) kvs)) @ ''}''"

definition example_parse :: "json list \<Rightarrow> string \<Rightarrow> error + json" where
  "example_parse documents text =
     (case filter (\<lambda>d. example_stringify d = text) documents of
        [] \<Rightarrow> Inl (Err ''SyntaxError'' ''Unexpected token'')
      | d # ds \<Rightarrow> Inr d)"

text \<open>
  A stand-in for the walk of the schema validator. \<^verbatim>\<open>jsonschema\<close> validates an instance
  against a schema keyword by keyword, in the order of the schema, and calls the hook
  \<^item> at \<^verbatim>\<open>properties\<close>, on an instance that is an object: for each property the schema
    declares, present in the instance or not, before it validates the property's value (or
    \<^verbatim>\<open>undefined\<close>) against the property's schema;
  \<^item> at \<^verbatim>\<open>additionalProperties\<close>, on an instance that is an object, when the schema has no
    \<^verbatim>\<open>patternProperties\<close> and \<^verbatim>\<open>additionalProperties\<close> is not \<^verbatim>\<open>false\<close>: for each property of the
    instance that the schema does not declare, before it validates the value against the
    schema of the additional properties.
  At \<^verbatim>\<open>items\<close>, one schema for all the items, it validates each element of an array against
  that schema. A property that the schema neither declares nor admits through
  \<^verbatim>\<open>additionalProperties\<close> is never visited. The other keywords that lead to a schema (\<^verbatim>\<open>anyOf\<close>,
  \<^verbatim>\<open>patternProperties\<close>, references, a list of schemas at \<^verbatim>\<open>items\<close>) do not occur in the schemas
  below and are not walked.
\<close>

fun schema_visits :: "json \<Rightarrow> json \<Rightarrow> ((string \<times> json) list \<times> string) list" where
  "schema_visits (JObj keywords) instance =
     concat (map (\<lambda>kw.
        if fst kw = ''properties'' then
          (case snd kw of
             JObj declared \<Rightarrow>
               (case instance of
                  JObj props \<Rightarrow>
                    concat (map (\<lambda>d. (props, fst d) # schema_visits (snd d) (js_get_opt instance (fst d)))
                              declared)
                | _ \<Rightarrow> [])
           | _ \<Rightarrow> [])
        else if fst kw = ''additionalProperties'' then
          (case instance of
             JObj props \<Rightarrow>
               (if snd kw = JBool False \<or> ''patternProperties'' \<in> fst ` set keywords then []
                else concat (map (\<lambda>p.
                       if fst p \<in> fst ` set (js_entries (js_get_opt (JObj keywords) ''properties'')) then []
                       else (props, fst p) # schema_visits (snd kw) (snd p))
                     props))
           | _ \<Rightarrow> [])
        else if fst kw = ''items'' then
          (case instance of
             JArr xs \<Rightarrow> concat (map (schema_visits (snd kw)) xs)
           | _ \<Rightarrow> [])
        else [])
      keywords)"
| "schema_visits sch instance = []"

text \<open>
  The part of \<^verbatim>\<open>cloud-assembly.schema.json\<close> that the walk of the manifests below goes through,
  with each reference to a definition replaced by the definition and, for the \<^verbatim>\<open>properties\<close>
  of an artifact, the first alternative of the schema, the properties of a stack. The
  manifest declares \<^verbatim>\<open>version\<close>, \<^verbatim>\<open>minimumCliVersion\<close> and \<^verbatim>\<open>artifacts\<close> and says nothing of additional
  properties; the properties of a stack declare \<^verbatim>\<open>assumeRoleAdditionalOptions\<close>.
\<close>

definition string_schema :: json where
  "string_schema = JObj [(''type'', JStr ''string'')]"

definition stack_properties_schema :: json where
  "stack_properties_schema =
     JObj [(''type'', JStr ''object''),
           (''properties'', JObj
              [(''templateFile'', string_schema),
               (''parameters'', JObj [(''type'', JStr ''object''), (''additionalProperties'', string_schema)]),
               (''stackName'', string_schema),
               (''assumeRoleArn'', string_schema),
               (''assumeRoleExternalId'', string_schema),
               (''assumeRoleAdditionalOptions'',
                  JObj [(''type'', JStr ''object''), (''additionalProperties'', JObj [])])]),
           (''required'', JArr [JStr ''templateFile''])]"

definition metadata_entry_schema :: json where
  "metadata_entry_schema =
     JObj [(''type'', JStr ''object''),
           (''properties'', JObj
              [(''type'', string_schema),
               (''data'', JObj []),
               (''trace'', JObj [(''type'', JStr ''array''), (''items'', string_schema)])]),
           (''required'', JArr [JStr ''type''])]"

definition artifact_schema :: json where
  "artifact_schema =
     JObj [(''type'', JStr ''object''),
           (''properties'', JObj
              [(''type'', JObj [(''enum'', JArr [JStr ''aws:cloudformation:stack'']), (''type'', JStr ''string'')]),
               (''environment'', string_schema),
               (''metadata'', JObj [(''type'', JStr ''object''),
                  (''additionalProperties'',
                     JObj [(''type'', JStr ''array''), (''items'', metadata_entry_schema)])]),
               (''dependencies'', JObj [(''type'', JStr ''array''), (''items'', string_schema)]),
               (''properties'', stack_properties_schema),
               (''displayName'', string_schema)]),
           (''required'', JArr [JStr ''type''])]"

definition assembly_schema :: json where
  "assembly_schema =
     JObj [(''type'', JStr ''object''),
           (''properties'', JObj
              [(''version'', string_schema),
               (''minimumCliVersion'', string_schema),
               (''artifacts'', JObj [(''type'', JStr ''object''), (''additionalProperties'', artifact_schema)])]),
           (''required'', JArr [JStr ''version''])]"

text \<open>The top level of \<^verbatim>\<open>assets.schema.json\<close>.\<close>

definition assets_schema :: json where
  "assets_schema =
     JObj [(''type'', JStr ''object''),
           (''properties'', JObj
              [(''version'', string_schema),
               (''files'', JObj [(''type'', JStr ''object'')]),
               (''dockerImages'', JObj [(''type'', JStr ''object'')])]),
           (''required'', JArr [JStr ''version''])]"

text \<open>
  The example environment: the stand-ins above, the walk of the schema for the calls of the
  hook, and the errors it is given for the errors the validator collects.
\<close>

definition example_env :: "json list \<Rightarrow> ValidationError list \<Rightarrow> menv" where
  "example_env documents errors =
     \<lparr> SCHEMA_VERSION_revision = 38,
       CLI_VERSION_version = JStr ''2.1000.0'',
       ASSETS_SCHEMA = assets_schema,
       ASSEMBLY_SCHEMA = assembly_schema,
       INTEG_SCHEMA = JObj [(''type'', JStr ''object'')],
       AWS_CLOUDFORMATION_STACK = ''aws:cloudformation:stack'',
       STACK_TAGS = ''aws:cdk:stack-tags'',
       semver_valid = example_semver_valid,
       semver_major = example_semver_major,
       JSON_parse = example_parse documents,
       JSON_stringify = (\<lambda>v indent. example_stringify v),
       jsonschema_visits = (\<lambda>instance sch. schema_visits sch instance),
       jsonschema_errors = (\<lambda>instance sch. errors) \<rparr>"

text \<open>A manifest with one stack artifact whose metadata holds one stack tag, in the casing of the disk and in the casing of the object model.\<close>

definition tagged_manifest :: "string \<Rightarrow> json \<Rightarrow> json" where
  "tagged_manifest ver tag =
     JObj [(''version'', JStr ver),
           (''artifacts'', JObj [(''stack'', JObj
              [(''type'', JStr ''aws:cloudformation:stack''),
               (''metadata'', JObj [(''/stack'', JArr
                  [JObj [(''type'', JStr ''aws:cdk:stack-tags''), (''data'', JArr [tag])]])])])])]"

definition disk_tag :: json where
  "disk_tag = JObj [(''Key'', JStr ''env''), (''Value'', JStr ''prod'')]"

definition mem_tag :: json where
  "mem_tag = JObj [(''key'', JStr ''env''), (''value'', JStr ''prod'')]"

text \<open>
  Two errors the validator reports when an artifact's \<^verbatim>\<open>type\<close>, declared as
  \<^verbatim>\<open>{ "type": "string", "enum": [...] }\<close>, is a number: the keyword \<^verbatim>\<open>type\<close> fails and the keyword
  \<^verbatim>\<open>enum\<close> fails, both at the same schema.
\<close>

definition artifact_type_schema :: schema_ref where
  "artifact_type_schema =
     SchemaObject [(''type'', JStr ''string''), (''enum'', JArr [JStr ''aws:cloudformation:stack''])]"

definition type_error :: ValidationError where
  "type_error =
     \<lparr> name = ''type'', schema = artifact_type_schema,
       stack = ''instance.artifacts.stack.type is not of a type(s) string'' \<rparr>"

definition enum_error :: ValidationError where
  "enum_error =
     \<lparr> name = ''enum'', schema = artifact_type_schema,
       stack = ''instance.artifacts.stack.type is not one of enum values: aws:cloudformation:stack'' \<rparr>"

text \<open>A validator that rejects one given instance and accepts every other.\<close>

definition rejecting_env :: "json \<Rightarrow> menv" where
  "rejecting_env bad =
     (example_env [] [])
       \<lparr> jsonschema_errors := (\<lambda>instance sch. if instance = bad then [type_error] else []) \<rparr>"

definition skipEnum :: "LoadManifestOptions option" where
  "skipEnum = Some \<lparr> skipVersionCheck = None, skipEnumCheck = Some True, topoSort = None \<rparr>"

text \<open>The tagged manifest after \<^verbatim>\<open>saveManifest\<close> has stamped it with the versions of the example environment.\<close>

definition stamped_manifest :: "json \<Rightarrow> json" where
  "stamped_manifest tag =
     JObj (js_entries (tagged_manifest ''38.0.0'' tag) @ [(''minimumCliVersion'', JStr ''2.1000.0'')])"

text \<open>A manifest with one more property, holding the options of a role.\<close>

definition smuggled :: "string \<Rightarrow> json \<Rightarrow> json" where
  "smuggled key opts = JObj [(''version'', JStr ''38.5.0''), (key, opts)]"

text \<open>A manifest with one stack artifact of the given properties.\<close>

definition stack_manifest :: "(string \<times> json) list \<Rightarrow> json" where
  "stack_manifest props =
     JObj [(''version'', JStr ''38.5.0''),
           (''artifacts'', JObj [(''stack'', JObj
              [(''type'', JStr ''aws:cloudformation:stack''),
               (''properties'', JObj props)])])]"

definition role_arn :: json where
  "role_arn = JStr ''arn:aws:iam::123456789012:role/deploy''"

text \<open>The two messages of \<^verbatim>\<open>validateAssumeRoleAdditionalOptions\<close>, and the objects on which it raises one.\<close>

definition RoleArn_message :: string where
  "RoleArn_message = ''RoleArn is not allowed inside '' @ [CHR 0x27] @ ''assumeRoleAdditionalOptions'' @ [CHR 0x27]"

definition ExternalId_message :: string where
  "ExternalId_message = ''ExternalId is not allowed inside '' @ [CHR 0x27] @ ''assumeRoleAdditionalOptions'' @ [CHR 0x27]"

definition forbidden :: "(string \<times> json) list \<Rightarrow> bool" where
  "forbidden props =
     (case map_of props ''assumeRoleAdditionalOptions'' of
        None \<Rightarrow> False
      | Some opts \<Rightarrow> truthy (js_get_opt opts ''RoleArn'') \<or> truthy (js_get_opt opts ''ExternalId''))"

section \<open>Properties of the stack tag patches\<close>

lemma is_mem_tagE:
  assumes "is_mem_tag t"
  obtains k v where "t = JObj [(''key'', JStr k), (''value'', JStr v)]"
  using assms by (induction t rule: is_mem_tag.induct) auto

lemma is_disk_tagE:
  assumes "is_disk_tag t"
  obtains k v where "t = JObj [(''Key'', JStr k), (''Value'', JStr v)]"
  using assms by (induction t rule: is_disk_tag.induct) auto

lemma write_tag_has_Key: "has_Key t \<Longrightarrow> write_tag t = Inr t"
  by (cases t) auto

lemma map_result_id:
  "(\<And>x. x \<in> set xs \<Longrightarrow> f x = Inr x) \<Longrightarrow> map_result f xs = Inr xs"
  by (induction xs) auto

lemma write_tags_mem:
  assumes "\<forall>t\<in>set tags. is_mem_tag t"
  shows "\<exists>w. write_tags (JArr tags) = Inr (JArr w) \<and> (\<forall>t\<in>set w. is_disk_tag t)
           \<and> read_tags (JArr w) = Inr (JArr tags)"
  using assms
proof (induction tags)
  case Nil
  then show ?case by (simp add: write_tags_def read_tags_def)
next
  case (Cons t ts)
  then obtain w where w: "write_tags (JArr ts) = Inr (JArr w)" "\<forall>t\<in>set w. is_disk_tag t"
    "read_tags (JArr w) = Inr (JArr ts)" by auto
  from Cons.prems obtain k v where t: "t = JObj [(''key'', JStr k), (''value'', JStr v)]"
    by (auto elim: is_mem_tagE)
  let ?d = "JObj [(''Key'', JStr k), (''Value'', JStr v)]"
  have "write_tags (JArr (t # ts)) = Inr (JArr (?d # w))"
    using w(1) by (auto simp: write_tags_def t split: sum.splits)
  moreover have "read_tags (JArr (?d # w)) = Inr (JArr (t # ts))"
    using w(3) by (auto simp: read_tags_def t read_tag_def split: sum.splits)
  moreover have "\<forall>t\<in>set (?d # w). is_disk_tag t" using w(2) by simp
  ultimately show ?case by blast
qed

lemma is_disk_has_Key: "is_disk_tag t \<Longrightarrow> has_Key t"
  by (auto elim!: is_disk_tagE)

lemma write_tags_caps:
  assumes "\<forall>t\<in>set caps. has_Key t"
  shows "write_tags (JArr caps) = Inr (JArr caps)"
  using assms by (simp add: write_tags_def map_result_id write_tag_has_Key)

text \<open>
  Claim C4. For every well-formed sequence of stack tags (each tag \<^verbatim>\<open>{key, value}\<close>), the write
  patch succeeds and the read patch applied to its result gives the sequence back; applied
  once more to its own result, the write patch changes nothing. On any sequence whose
  entries already have a \<^verbatim>\<open>Key\<close> field the write patch returns every entry as it is.
\<close>

theorem stack_tag_patches_inverse:
  "((\<forall>t\<in>set tags. is_mem_tag t) \<longrightarrow>
      (\<exists>w. write_tags (JArr tags) = Inr (JArr w) \<and> read_tags (JArr w) = Inr (JArr tags)
          \<and> write_tags (JArr w) = Inr (JArr w)))
   \<and> ((\<forall>t\<in>set caps. has_Key t) \<longrightarrow> write_tags (JArr caps) = Inr (JArr caps))"
proof (intro conjI impI)
  assume "\<forall>t\<in>set tags. is_mem_tag t"
  from write_tags_mem[OF this] obtain w where w: "write_tags (JArr tags) = Inr (JArr w)"
    "\<forall>t\<in>set w. is_disk_tag t" "read_tags (JArr w) = Inr (JArr tags)" by blast
  from w(2) have "\<forall>t\<in>set w. has_Key t" by (auto dest: is_disk_has_Key)
  then have "write_tags (JArr w) = Inr (JArr w)" by (rule write_tags_caps)
  with w show "\<exists>w. write_tags (JArr tags) = Inr (JArr w) \<and> read_tags (JArr w) = Inr (JArr tags)
          \<and> write_tags (JArr w) = Inr (JArr w)" by blast
next
  assume "\<forall>t\<in>set caps. has_Key t"
  then show "write_tags (JArr caps) = Inr (JArr caps)" by (rule write_tags_caps)
qed

theorem stack_tag_patches_inverse_witness:
  "is_mem_tag (JObj [(''key'', JStr ''env''), (''value'', JStr ''prod'')])
   \<and> has_Key (JObj [(''Key'', JStr ''env''), (''Value'', JStr ''prod'')])
   \<and> write_tags (JArr [JObj [(''key'', JStr ''env''), (''value'', JStr ''prod'')]])
       = Inr (JArr [JObj [(''Key'', JStr ''env''), (''Value'', JStr ''prod'')]])
   \<and> read_tags (JArr [JObj [(''Key'', JStr ''env''), (''Value'', JStr ''prod'')]])
       = Inr (JArr [JObj [(''key'', JStr ''env''), (''value'', JStr ''prod'')]])
   \<and> write_tags (JArr [JObj [(''Key'', JStr ''env''), (''Value'', JStr ''prod'')]])
       = Inr (JArr [JObj [(''Key'', JStr ''env''), (''Value'', JStr ''prod'')]])"
  using stack_tag_patches_inverse
    [of "[JObj [(''key'', JStr ''env''), (''value'', JStr ''prod'')]]"
        "[JObj [(''Key'', JStr ''env''), (''Value'', JStr ''prod'')]]"]
  by (simp add: write_tags_def read_tags_def read_tag_def)

section \<open>Properties of the container image handler\<close>

lemma initOnce_frame:
  "initOnce h this q tr = (r, this1, tr1) \<Longrightarrow>
     workDir this1 = workDir this \<and> asset this1 = asset this
     \<and> subprocessOutputDestination this1 = subprocessOutputDestination this"
  by (auto simp: initOnce_def Let_def split: option.splits sum.splits prod.splits if_splits)

lemma initOnce_sets_init:
  "initOnce h this q tr = (Inr i, this1, tr1) \<Longrightarrow> init this1 = Some i"
  by (auto simp: initOnce_def Let_def split: option.splits sum.splits prod.splits if_splits)

lemma initOnce_memoized:
  "init this = Some i \<Longrightarrow> initOnce h this q tr = (Inr i, this, tr)"
  by (simp add: initOnce_def)

lemma imageExists_trace:
  "imageExists h client repo tag tr = (r, tr1) \<Longrightarrow> tr1 = tr @ [DescribeImages client repo tag]"
  by (auto simp: imageExists_def split: sum.splits if_splits)

lemma repositoryUri_trace:
  "repositoryUri h client repo tr = (r, tr1) \<Longrightarrow> tr1 = tr @ [DescribeRepositories client repo]"
  by (auto simp: repositoryUri_def split: sum.splits if_splits)

lemma checkDestination_trace:
  "checkDestinationAlreadyExists h client dest uri tr = (r, tr1) \<Longrightarrow>
     \<exists>new. tr1 = tr @ new \<and> (\<forall>c\<in>set new. \<not> is_build_engine_call c \<and> \<not> is_registry_mutating_call c)"
  by (auto simp: checkDestinationAlreadyExists_def split: sum.splits if_splits prod.splits
           dest!: imageExists_trace)

lemma initOnce_trace:
  "initOnce h this q tr = (r, this1, tr1) \<Longrightarrow>
     \<exists>new. tr1 = tr @ new \<and> (\<forall>c\<in>set new. \<not> is_build_engine_call c \<and> \<not> is_registry_mutating_call c)"
  unfolding initOnce_def Let_def
  by (auto split: option.splits sum.splits prod.splits if_splits
           dest!: repositoryUri_trace checkDestination_trace)

text \<open>
  Claim C6. A handler that is initialized for the first time and finds its destination in the
  registry: \<^verbatim>\<open>build()\<close> returns right after the initialization, and a second \<^verbatim>\<open>build()\<close>
  returns from the memoized state without a single call to a collaborator. None of the
  calls of the first \<^verbatim>\<open>build()\<close> reaches the build engine or changes the registry.
\<close>

theorem build_twice_destination_exists:
  assumes "init this = None"
    and "initOnce h this None tr = (Inr i, this1, tr1)"
    and "destinationAlreadyExists i"
  shows "build h this tr = (Inr (), this1, tr1)
     \<and> build h this1 tr1 = (Inr (), this1, tr1)
     \<and> (\<exists>new. tr1 = tr @ new
           \<and> (\<forall>c\<in>set new. \<not> is_build_engine_call c \<and> \<not> is_registry_mutating_call c))"
proof -
  have first: "build h this tr = (Inr (), this1, tr1)"
    using assms(2,3) by (simp add: build_def)
  have "init this1 = Some i" using assms(2) by (rule initOnce_sets_init)
  then have "initOnce h this1 None tr1 = (Inr i, this1, tr1)" by (rule initOnce_memoized)
  then have second: "build h this1 tr1 = (Inr (), this1, tr1)"
    using assms(3) by (simp add: build_def)
  from first second initOnce_trace[OF assms(2)] show ?thesis by blast
qed

lemma example_init_found:
  "initOnce (example_host True) (example_handler (Some ''img'') None) None [] =
     (Inr \<lparr> ecr = ECRClient 0, repoUri = ''registry.example/myrepo'',
            imageUri = ''registry.example/myrepo:latest'', destinationAlreadyExists = True \<rparr>,
      (example_handler (Some ''img'') None)
        \<lparr> init := Some \<lparr> ecr = ECRClient 0, repoUri = ''registry.example/myrepo'',
            imageUri = ''registry.example/myrepo:latest'', destinationAlreadyExists = True \<rparr> \<rparr>,
      [ReplaceAwsPlaceholders \<lparr>repositoryName = ''myrepo'', imageTag = ''latest''\<rparr>,
       EcrClient \<lparr>repositoryName = ''myrepo'', imageTag = ''latest''\<rparr> None,
       DescribeRepositories (ECRClient 0) ''myrepo'',
       EmitMessage CHECK ''Check registry.example/myrepo:latest'',
       DescribeImages (ECRClient 0) ''myrepo'' ''latest'',
       EmitMessage FOUND ''Found registry.example/myrepo:latest''])"
  by (simp add: initOnce_def example_host_def example_handler_def example_asset_def
        repositoryUri_def checkDestinationAlreadyExists_def imageExists_def Let_def)

theorem build_twice_destination_exists_witness:
  "build (example_host True) (example_handler (Some ''img'') None) [] =
     (Inr (),
      (example_handler (Some ''img'') None)
        \<lparr> init := Some \<lparr> ecr = ECRClient 0, repoUri = ''registry.example/myrepo'',
            imageUri = ''registry.example/myrepo:latest'', destinationAlreadyExists = True \<rparr> \<rparr>,
      [ReplaceAwsPlaceholders \<lparr>repositoryName = ''myrepo'', imageTag = ''latest''\<rparr>,
       EcrClient \<lparr>repositoryName = ''myrepo'', imageTag = ''latest''\<rparr> None,
       DescribeRepositories (ECRClient 0) ''myrepo'',
       EmitMessage CHECK ''Check registry.example/myrepo:latest'',
       DescribeImages (ECRClient 0) ''myrepo'' ''latest'',
       EmitMessage FOUND ''Found registry.example/myrepo:latest''])"
  using build_twice_destination_exists [OF _ example_init_found]
  by (simp add: example_handler_def)

lemma imageExists_true_iff:
  "fst (imageExists h client repo tag tr) = Inr True \<longleftrightarrow> describeImages h tr client repo tag = Inr ()"
  by (auto simp: imageExists_def split: sum.splits)

lemma checkDestination_true_iff:
  "fst (checkDestinationAlreadyExists h client dest uri tr) = Inr True \<longleftrightarrow>
     emitMessage h tr CHECK (''Check '' @ uri) = Inr ()
     \<and> describeImages h (tr @ [EmitMessage CHECK (''Check '' @ uri)]) client
           (repositoryName dest) (imageTag dest) = Inr ()
     \<and> emitMessage h (tr @ [EmitMessage CHECK (''Check '' @ uri),
                             DescribeImages client (repositoryName dest) (imageTag dest)])
           FOUND (''Found '' @ uri) = Inr ()"
proof -
  obtain r tr1 where ie: "imageExists h client (repositoryName dest) (imageTag dest)
                            (tr @ [EmitMessage CHECK (''Check '' @ uri)]) = (r, tr1)"
    by (cases "imageExists h client (repositoryName dest) (imageTag dest)
                 (tr @ [EmitMessage CHECK (''Check '' @ uri)])")
  from imageExists_trace [OF ie]
  have tr1: "tr1 = tr @ [EmitMessage CHECK (''Check '' @ uri),
                         DescribeImages client (repositoryName dest) (imageTag dest)]"
    by simp
  from ie imageExists_true_iff [of h client "repositoryName dest" "imageTag dest"
          "tr @ [EmitMessage CHECK (''Check '' @ uri)]"]
  have r: "r = Inr True \<longleftrightarrow>
             describeImages h (tr @ [EmitMessage CHECK (''Check '' @ uri)]) client
               (repositoryName dest) (imageTag dest) = Inr ()"
    by simp
  show ?thesis
    unfolding checkDestinationAlreadyExists_def ie
    using r tr1 by (auto split: sum.splits)
qed

lemma repositoryUri_found_iff:
  "fst (repositoryUri h client repo tr) = Inr (Some uri) \<longleftrightarrow>
     (\<exists>rest. describeRepositories h tr client repo = Inr (Some (Some uri # rest)))"
  by (auto simp: repositoryUri_def split: sum.splits option.splits list.splits)

lemma initOnce_fresh_found_iff:
  fixes this :: ContainerImageAssetHandler
  assumes "init this = None"
  shows "(\<exists>i. fst (initOnce h this q tr) = Inr i \<and> destinationAlreadyExists i) \<longleftrightarrow>
     (\<exists>(dest :: DockerImageDestination) client uri rest.
        replaceAwsPlaceholders h tr (destination (asset this)) = Inr dest
        \<and> ecrClient h (tr @ [ReplaceAwsPlaceholders (destination (asset this))]) dest q = Inr client
        \<and> describeRepositories h
              (tr @ [ReplaceAwsPlaceholders (destination (asset this)), EcrClient dest q])
              client (repositoryName dest) = Inr (Some (Some uri # rest))
        \<and> uri \<noteq> []
        \<and> emitMessage h
              (tr @ [ReplaceAwsPlaceholders (destination (asset this)), EcrClient dest q,
                     DescribeRepositories client (repositoryName dest)])
              CHECK (''Check '' @ uri @ '':'' @ imageTag dest) = Inr ()
        \<and> describeImages h
              (tr @ [ReplaceAwsPlaceholders (destination (asset this)), EcrClient dest q,
                     DescribeRepositories client (repositoryName dest),
                     EmitMessage CHECK (''Check '' @ uri @ '':'' @ imageTag dest)])
              client (repositoryName dest) (imageTag dest) = Inr ()
        \<and> emitMessage h
              (tr @ [ReplaceAwsPlaceholders (destination (asset this)), EcrClient dest q,
                     DescribeRepositories client (repositoryName dest),
                     EmitMessage CHECK (''Check '' @ uri @ '':'' @ imageTag dest),
                     DescribeImages client (repositoryName dest) (imageTag dest)])
              FOUND (''Found '' @ uri @ '':'' @ imageTag dest) = Inr ())"
  (is "?L \<longleftrightarrow> ?R")
proof
  assume ?L
  then obtain i where i: "fst (initOnce h this q tr) = Inr i" "destinationAlreadyExists i" by blast
  from i(1) assms obtain dest where
    d: "replaceAwsPlaceholders h tr (destination (asset this)) = Inr dest"
    by (auto simp: initOnce_def Let_def split: sum.splits)
  from i(1) assms d obtain client where
    c: "ecrClient h (tr @ [ReplaceAwsPlaceholders (destination (asset this))]) dest q = Inr client"
    by (auto simp: initOnce_def Let_def split: sum.splits)
  let ?tr2 = "tr @ [ReplaceAwsPlaceholders (destination (asset this)), EcrClient dest q]"
  obtain ru tr3 where ru: "repositoryUri h client (repositoryName dest) ?tr2 = (ru, tr3)"
    by (cases "repositoryUri h client (repositoryName dest) ?tr2")
  from repositoryUri_trace [OF ru]
  have tr3: "tr3 = ?tr2 @ [DescribeRepositories client (repositoryName dest)]" .
  from i(1) assms d c ru obtain uri where
    u: "ru = Inr (Some uri)" "uri \<noteq> []"
    by (auto simp: initOnce_def Let_def split: sum.splits if_splits)
  obtain cd tr4 where cd: "checkDestinationAlreadyExists h client dest
            (uri @ '':'' @ imageTag dest) tr3 = (cd, tr4)"
    by (cases "checkDestinationAlreadyExists h client dest (uri @ '':'' @ imageTag dest) tr3")
  from i assms d c ru u cd have "cd = Inr True"
    by (auto simp: initOnce_def Let_def split: sum.splits)
  with cd have "fst (checkDestinationAlreadyExists h client dest
            (uri @ '':'' @ imageTag dest) tr3) = Inr True" by simp
  then have chk: "emitMessage h tr3 CHECK (''Check '' @ uri @ '':'' @ imageTag dest) = Inr ()
     \<and> describeImages h (tr3 @ [EmitMessage CHECK (''Check '' @ uri @ '':'' @ imageTag dest)]) client
           (repositoryName dest) (imageTag dest) = Inr ()
     \<and> emitMessage h (tr3 @ [EmitMessage CHECK (''Check '' @ uri @ '':'' @ imageTag dest),
                             DescribeImages client (repositoryName dest) (imageTag dest)])
           FOUND (''Found '' @ uri @ '':'' @ imageTag dest) = Inr ()"
    by (simp add: checkDestination_true_iff)
  from ru u have "fst (repositoryUri h client (repositoryName dest) ?tr2) = Inr (Some uri)" by simp
  then obtain rest where
    "describeRepositories h ?tr2 client (repositoryName dest) = Inr (Some (Some uri # rest))"
    unfolding repositoryUri_found_iff by blast
  with d c u(2) chk show ?R
    unfolding tr3 by (intro exI [of _ dest] exI [of _ client] exI [of _ uri] exI [of _ rest]) simp
next
  assume ?R
  then obtain dest :: DockerImageDestination and client uri rest where
    d: "replaceAwsPlaceholders h tr (destination (asset this)) = Inr dest"
    and c: "ecrClient h (tr @ [ReplaceAwsPlaceholders (destination (asset this))]) dest q = Inr client"
    and r: "describeRepositories h
              (tr @ [ReplaceAwsPlaceholders (destination (asset this)), EcrClient dest q])
              client (repositoryName dest) = Inr (Some (Some uri # rest))"
    and u: "uri \<noteq> []"
    and e1: "emitMessage h
              (tr @ [ReplaceAwsPlaceholders (destination (asset this)), EcrClient dest q,
                     DescribeRepositories client (repositoryName dest)])
              CHECK (''Check '' @ uri @ '':'' @ imageTag dest) = Inr ()"
    and di: "describeImages h
              (tr @ [ReplaceAwsPlaceholders (destination (asset this)), EcrClient dest q,
                     DescribeRepositories client (repositoryName dest),
                     EmitMessage CHECK (''Check '' @ uri @ '':'' @ imageTag dest)])
              client (repositoryName dest) (imageTag dest) = Inr ()"
    and e2: "emitMessage h
              (tr @ [ReplaceAwsPlaceholders (destination (asset this)), EcrClient dest q,
                     DescribeRepositories client (repositoryName dest),
                     EmitMessage CHECK (''Check '' @ uri @ '':'' @ imageTag dest),
                     DescribeImages client (repositoryName dest) (imageTag dest)])
              FOUND (''Found '' @ uri @ '':'' @ imageTag dest) = Inr ()"
    by blast
  from assms d c r u e1 di e2 show ?L
    by (simp add: initOnce_def Let_def repositoryUri_def checkDestinationAlreadyExists_def
          imageExists_def)
qed

text \<open>
  Claim C7, amended. \<^verbatim>\<open>isPublished()\<close> on an initialized handler answers from the memoized state.
  On a handler not yet initialized it returns true exactly when the placeholders of the
  destination are replaced, the client of the registry is created in quiet mode, the
  repository is found with a name, \<^verbatim>\<open>describeImages\<close> on the replaced destination answers without
  an exception, and the two messages of the check are emitted. Inside the existence check, a
  failure of the registry named \<^verbatim>\<open>ImageNotFoundException\<close> is the answer false, not an
  exception. When the initialization raises an exception whose message can be read, the
  message is emitted as a \<^verbatim>\<open>DEBUG\<close> message: the answer is false when this emit returns, and an
  exception of this emit is the exception of \<^verbatim>\<open>isPublished()\<close>. When the initialization
  completes, the answer is the existence fact it found.
\<close>

theorem isPublished_outcome:
  fixes this :: ContainerImageAssetHandler
  shows
  "(init this = Some i0 \<longrightarrow> isPublished h this tr = (Inr (destinationAlreadyExists i0), this, tr))
   \<and> (init this = None \<longrightarrow>
        (fst (isPublished h this tr) = Inr True \<longleftrightarrow>
           (\<exists>(dest :: DockerImageDestination) client uri rest.
              replaceAwsPlaceholders h tr (destination (asset this)) = Inr dest
              \<and> ecrClient h (tr @ [ReplaceAwsPlaceholders (destination (asset this))]) dest (Some True)
                   = Inr client
              \<and> describeRepositories h
                    (tr @ [ReplaceAwsPlaceholders (destination (asset this)), EcrClient dest (Some True)])
                    client (repositoryName dest) = Inr (Some (Some uri # rest))
              \<and> uri \<noteq> []
              \<and> emitMessage h
                    (tr @ [ReplaceAwsPlaceholders (destination (asset this)), EcrClient dest (Some True),
                           DescribeRepositories client (repositoryName dest)])
                    CHECK (''Check '' @ uri @ '':'' @ imageTag dest) = Inr ()
              \<and> describeImages h
                    (tr @ [ReplaceAwsPlaceholders (destination (asset this)), EcrClient dest (Some True),
                           DescribeRepositories client (repositoryName dest),
                           EmitMessage CHECK (''Check '' @ uri @ '':'' @ imageTag dest)])
                    client (repositoryName dest) (imageTag dest) = Inr ()
              \<and> emitMessage h
                    (tr @ [ReplaceAwsPlaceholders (destination (asset this)), EcrClient dest (Some True),
                           DescribeRepositories client (repositoryName dest),
                           EmitMessage CHECK (''Check '' @ uri @ '':'' @ imageTag dest),
                           DescribeImages client (repositoryName dest) (imageTag dest)])
                    FOUND (''Found '' @ uri @ '':'' @ imageTag dest) = Inr ())))
   \<and> (describeImages h tr' client' repo tag = Inl e' \<and> error_name e' = Inr (JStr ''ImageNotFoundException'')
        \<longrightarrow> imageExists h client' repo tag tr' = (Inr False, tr' @ [DescribeImages client' repo tag]))
   \<and> (initOnce h this (Some True) tr = (Inl e, this1, tr1) \<and> error_message e = Inr m
        \<and> emitMessage h tr1 DEBUG (js_to_string m) = Inr ()
        \<longrightarrow> isPublished h this tr = (Inr False, this1, tr1 @ [EmitMessage DEBUG (js_to_string m)]))
   \<and> (initOnce h this (Some True) tr = (Inl e, this1, tr1) \<and> error_message e = Inr m
        \<and> emitMessage h tr1 DEBUG (js_to_string m) = Inl t
        \<longrightarrow> isPublished h this tr = (Inl t, this1, tr1 @ [EmitMessage DEBUG (js_to_string m)]))
   \<and> (initOnce h this (Some True) tr = (Inr i, this2, tr2)
        \<longrightarrow> isPublished h this tr = (Inr (destinationAlreadyExists i), this2, tr2))"
proof (intro conjI impI)
  assume "init this = Some i0"
  then show "isPublished h this tr = (Inr (destinationAlreadyExists i0), this, tr)"
    by (simp add: isPublished_def initOnce_memoized)
next
  assume fresh: "init this = None"
  have "fst (isPublished h this tr) = Inr True \<longleftrightarrow>
          (\<exists>i. fst (initOnce h this (Some True) tr) = Inr i \<and> destinationAlreadyExists i)"
    by (auto simp: isPublished_def split: sum.splits prod.splits)
  then show "fst (isPublished h this tr) = Inr True \<longleftrightarrow>
           (\<exists>(dest :: DockerImageDestination) client uri rest.
              replaceAwsPlaceholders h tr (destination (asset this)) = Inr dest
              \<and> ecrClient h (tr @ [ReplaceAwsPlaceholders (destination (asset this))]) dest (Some True)
                   = Inr client
              \<and> describeRepositories h
                    (tr @ [ReplaceAwsPlaceholders (destination (asset this)), EcrClient dest (Some True)])
                    client (repositoryName dest) = Inr (Some (Some uri # rest))
              \<and> uri \<noteq> []
              \<and> emitMessage h
                    (tr @ [ReplaceAwsPlaceholders (destination (asset this)), EcrClient dest (Some True),
                           DescribeRepositories client (repositoryName dest)])
                    CHECK (''Check '' @ uri @ '':'' @ imageTag dest) = Inr ()
              \<and> describeImages h
                    (tr @ [ReplaceAwsPlaceholders (destination (asset this)), EcrClient dest (Some True),
                           DescribeRepositories client (repositoryName dest),
                           EmitMessage CHECK (''Check '' @ uri @ '':'' @ imageTag dest)])
                    client (repositoryName dest) (imageTag dest) = Inr ()
              \<and> emitMessage h
                    (tr @ [ReplaceAwsPlaceholders (destination (asset this)), EcrClient dest (Some True),
                           DescribeRepositories client (repositoryName dest),
                           EmitMessage CHECK (''Check '' @ uri @ '':'' @ imageTag dest),
                           DescribeImages client (repositoryName dest) (imageTag dest)])
                    FOUND (''Found '' @ uri @ '':'' @ imageTag dest) = Inr ())"
    unfolding initOnce_fresh_found_iff [OF fresh] .
next
  assume "describeImages h tr' client' repo tag = Inl e' \<and> error_name e' = Inr (JStr ''ImageNotFoundException'')"
  then show "imageExists h client' repo tag tr' = (Inr False, tr' @ [DescribeImages client' repo tag])"
    by (simp add: imageExists_def)
next
  assume "initOnce h this (Some True) tr = (Inl e, this1, tr1) \<and> error_message e = Inr m
        \<and> emitMessage h tr1 DEBUG (js_to_string m) = Inr ()"
  then show "isPublished h this tr = (Inr False, this1, tr1 @ [EmitMessage DEBUG (js_to_string m)])"
    by (simp add: isPublished_def)
next
  assume "initOnce h this (Some True) tr = (Inl e, this1, tr1) \<and> error_message e = Inr m
        \<and> emitMessage h tr1 DEBUG (js_to_string m) = Inl t"
  then show "isPublished h this tr = (Inl t, this1, tr1 @ [EmitMessage DEBUG (js_to_string m)])"
    by (simp add: isPublished_def)
next
  assume "initOnce h this (Some True) tr = (Inr i, this2, tr2)"
  then show "isPublished h this tr = (Inr (destinationAlreadyExists i), this2, tr2)"
    by (simp add: isPublished_def)
qed

lemma failing_init:
  "initOnce failing_host (example_handler None None) (Some True) [] =
     (Inl (Err ''CredentialsProviderError'' ''Could not load credentials''),
      example_handler None None,
      [ReplaceAwsPlaceholders \<lparr>repositoryName = ''myrepo'', imageTag = ''latest''\<rparr>,
       EcrClient \<lparr>repositoryName = ''myrepo'', imageTag = ''latest''\<rparr> (Some True)])"
  by (simp add: initOnce_def failing_host_def example_host_def example_handler_def example_asset_def Let_def)

lemma mute_init:
  "initOnce mute_host (example_handler None None) (Some True) [] =
     (Inl (Err ''CredentialsProviderError'' ''Could not load credentials''),
      example_handler None None,
      [ReplaceAwsPlaceholders \<lparr>repositoryName = ''myrepo'', imageTag = ''latest''\<rparr>,
       EcrClient \<lparr>repositoryName = ''myrepo'', imageTag = ''latest''\<rparr> (Some True)])"
  by (simp add: initOnce_def mute_host_def failing_host_def example_host_def example_handler_def
        example_asset_def Let_def)

lemma rejecting_init:
  "initOnce rejecting_host (example_handler None None) (Some True) [] =
     (Inl (Thrown JUndefined),
      example_handler None None,
      [ReplaceAwsPlaceholders \<lparr>repositoryName = ''myrepo'', imageTag = ''latest''\<rparr>,
       EcrClient \<lparr>repositoryName = ''myrepo'', imageTag = ''latest''\<rparr> (Some True)])"
  by (simp add: initOnce_def rejecting_host_def example_host_def example_handler_def
        example_asset_def Let_def)

lemma quiet_init_absent:
  "initOnce (example_host False) (example_handler None None) (Some True) [] =
     (Inr \<lparr> ecr = ECRClient 0, repoUri = ''registry.example/myrepo'',
            imageUri = ''registry.example/myrepo:latest'', destinationAlreadyExists = False \<rparr>,
      (example_handler None None)
        \<lparr> init := Some \<lparr> ecr = ECRClient 0, repoUri = ''registry.example/myrepo'',
            imageUri = ''registry.example/myrepo:latest'', destinationAlreadyExists = False \<rparr> \<rparr>,
      [ReplaceAwsPlaceholders \<lparr>repositoryName = ''myrepo'', imageTag = ''latest''\<rparr>,
       EcrClient \<lparr>repositoryName = ''myrepo'', imageTag = ''latest''\<rparr> (Some True),
       DescribeRepositories (ECRClient 0) ''myrepo'',
       EmitMessage CHECK ''Check registry.example/myrepo:latest'',
       DescribeImages (ECRClient 0) ''myrepo'' ''latest''])"
  by (simp add: initOnce_def example_host_def example_handler_def example_asset_def
        repositoryUri_def checkDestinationAlreadyExists_def imageExists_def Let_def)

text \<open>
  The claim C7 as it is stated fails on a host that cannot create the client of the registry
  and whose emit of a message throws: the initialization raises, the catch block emits the
  message, and the exception of the emit leaves \<^verbatim>\<open>isPublished()\<close>. It fails too on a host whose
  client is rejected with \<^verbatim>\<open>undefined\<close>: the catch block reads \<^verbatim>\<open>e.message\<close> on it.
\<close>

theorem isPublished_throws_counterexample:
  "isPublished mute_host (example_handler None None) [] =
     (Inl (Err ''Error'' ''listener failed''), example_handler None None,
      [ReplaceAwsPlaceholders \<lparr>repositoryName = ''myrepo'', imageTag = ''latest''\<rparr>,
       EcrClient \<lparr>repositoryName = ''myrepo'', imageTag = ''latest''\<rparr> (Some True),
       EmitMessage DEBUG ''Could not load credentials''])
   \<and> isPublished rejecting_host (example_handler None None) [] =
     (Inl (TypeError ''Cannot read properties of undefined (reading message)''),
      example_handler None None,
      [ReplaceAwsPlaceholders \<lparr>repositoryName = ''myrepo'', imageTag = ''latest''\<rparr>,
       EcrClient \<lparr>repositoryName = ''myrepo'', imageTag = ''latest''\<rparr> (Some True)])"
  by (simp add: isPublished_def mute_init rejecting_init)
    (simp add: mute_host_def failing_host_def example_host_def)

theorem isPublished_outcome_witness:
  "fst (isPublished (example_host True) (example_handler None None) []) = Inr True
   \<and> fst (isPublished (example_host False) (example_handler None None) []) = Inr False
   \<and> imageExists (example_host False) (ECRClient 0) ''myrepo'' ''latest'' [] =
       (Inr False, [DescribeImages (ECRClient 0) ''myrepo'' ''latest''])
   \<and> isPublished failing_host (example_handler None None) [] =
       (Inr False, example_handler None None,
        [ReplaceAwsPlaceholders \<lparr>repositoryName = ''myrepo'', imageTag = ''latest''\<rparr>,
         EcrClient \<lparr>repositoryName = ''myrepo'', imageTag = ''latest''\<rparr> (Some True),
         EmitMessage DEBUG ''Could not load credentials''])
   \<and> fst (isPublished mute_host (example_handler None None) []) = Inl (Err ''Error'' ''listener failed'')
   \<and> isPublished failing_host
        ((example_handler None None)
           \<lparr> init := Some \<lparr> ecr = ECRClient 0, repoUri = ''registry.example/myrepo'',
                imageUri = ''registry.example/myrepo:latest'', destinationAlreadyExists = True \<rparr> \<rparr>) []
      = (Inr True,
         (example_handler None None)
           \<lparr> init := Some \<lparr> ecr = ECRClient 0, repoUri = ''registry.example/myrepo'',
                imageUri = ''registry.example/myrepo:latest'', destinationAlreadyExists = True \<rparr> \<rparr>, [])"
proof -
  let ?hd = "example_handler None None"
  let ?d = "\<lparr>repositoryName = ''myrepo'', imageTag = ''latest''\<rparr>"
  let ?i = "\<lparr> ecr = ECRClient 0, repoUri = ''registry.example/myrepo'',
              imageUri = ''registry.example/myrepo:latest'', destinationAlreadyExists = True \<rparr>"
  have fresh: "init ?hd = None" and dst: "destination (asset ?hd) = ?d"
    by (simp_all add: example_handler_def example_asset_def)
  have "\<exists>(dest :: DockerImageDestination) client uri rest.
          replaceAwsPlaceholders (example_host True) [] (destination (asset ?hd)) = Inr dest
          \<and> ecrClient (example_host True) ([] @ [ReplaceAwsPlaceholders (destination (asset ?hd))]) dest (Some True)
               = Inr client
          \<and> describeRepositories (example_host True)
                ([] @ [ReplaceAwsPlaceholders (destination (asset ?hd)), EcrClient dest (Some True)])
                client (repositoryName dest) = Inr (Some (Some uri # rest))
          \<and> uri \<noteq> []
          \<and> emitMessage (example_host True)
                ([] @ [ReplaceAwsPlaceholders (destination (asset ?hd)), EcrClient dest (Some True),
                       DescribeRepositories client (repositoryName dest)])
                CHECK (''Check '' @ uri @ '':'' @ imageTag dest) = Inr ()
          \<and> describeImages (example_host True)
                ([] @ [ReplaceAwsPlaceholders (destination (asset ?hd)), EcrClient dest (Some True),
                       DescribeRepositories client (repositoryName dest),
                       EmitMessage CHECK (''Check '' @ uri @ '':'' @ imageTag dest)])
                client (repositoryName dest) (imageTag dest) = Inr ()
          \<and> emitMessage (example_host True)
                ([] @ [ReplaceAwsPlaceholders (destination (asset ?hd)), EcrClient dest (Some True),
                       DescribeRepositories client (repositoryName dest),
                       EmitMessage CHECK (''Check '' @ uri @ '':'' @ imageTag dest),
                       DescribeImages client (repositoryName dest) (imageTag dest)])
                FOUND (''Found '' @ uri @ '':'' @ imageTag dest) = Inr ()"
    by (intro exI [of _ ?d] exI [of _ "ECRClient 0"] exI [of _ "''registry.example/myrepo''"]
          exI [of _ "[]"])
       (simp add: example_host_def dst)
  with isPublished_outcome [where h = "example_host True" and this = ?hd and tr = "[]"] fresh
  have 1: "fst (isPublished (example_host True) ?hd []) = Inr True"
    by blast
  from isPublished_outcome [where h = "example_host False" and this = ?hd and tr = "[]",
          OF] quiet_init_absent
  have 2: "fst (isPublished (example_host False) ?hd []) = Inr False"
    by simp
  have nf: "describeImages (example_host False) [] (ECRClient 0) ''myrepo'' ''latest''
              = Inl (Err ''ImageNotFoundException'' ''image not found'')"
    by (simp add: example_host_def)
  from isPublished_outcome [where h = "example_host False" and tr' = "[]" and client' = "ECRClient 0"
          and repo = "''myrepo''" and tag = "''latest''"
          and e' = "Err ''ImageNotFoundException'' ''image not found''"] nf
  have 3: "imageExists (example_host False) (ECRClient 0) ''myrepo'' ''latest'' [] =
       (Inr False, [DescribeImages (ECRClient 0) ''myrepo'' ''latest''])"
    by simp
  have em: "emitMessage failing_host trc DEBUG msg = Inr ()" for trc msg
    by (simp add: failing_host_def example_host_def)
  from isPublished_outcome [where h = failing_host and this = ?hd and tr = "[]"
          and e = "Err ''CredentialsProviderError'' ''Could not load credentials''"
          and m = "JStr ''Could not load credentials''"] failing_init em
  have 4: "isPublished failing_host ?hd [] =
       (Inr False, ?hd,
        [ReplaceAwsPlaceholders ?d, EcrClient ?d (Some True),
         EmitMessage DEBUG ''Could not load credentials''])"
    by simp
  have mm: "emitMessage mute_host trc DEBUG msg = Inl (Err ''Error'' ''listener failed'')" for trc msg
    by (simp add: mute_host_def failing_host_def example_host_def)
  from isPublished_outcome [where h = mute_host and this = ?hd and tr = "[]"
          and e = "Err ''CredentialsProviderError'' ''Could not load credentials''"
          and m = "JStr ''Could not load credentials''" and t = "Err ''Error'' ''listener failed''"]
     mute_init mm
  have 5: "fst (isPublished mute_host ?hd []) = Inl (Err ''Error'' ''listener failed'')"
    by simp
  from isPublished_outcome [where h = failing_host and this = "?hd \<lparr> init := Some ?i \<rparr>"
          and tr = "[]" and ?i0.0 = ?i]
  have 6: "isPublished failing_host (?hd \<lparr> init := Some ?i \<rparr>) [] = (Inr True, ?hd \<lparr> init := Some ?i \<rparr>, [])"
    by simp
  from 1 2 3 4 5 6 show ?thesis by simp
qed

lemma builder_build_no_source:
  assumes "executable (source a) = None" and "directory (source a) = None"
    and "docker_exists h tr docker (localTag a) = Inr False"
    and "\<not> aborted h (tr @ [DockerExists docker (localTag a)])"
  shows "builder_build h docker wd a tr =
           (Inl (directoryExpected h (source a)), tr @ [DockerExists docker (localTag a)])"
  using assms
  by (simp add: builder_build_def buildDirectoryAsset_def isImageCached_def buildImage_def)

text \<open>
  Claim C10. The source declares neither a command nor a directory, the initialization
  completes without finding the destination, cancellation is never requested, the build
  engine is obtained and does not have the local tag in its cache: \<^verbatim>\<open>build()\<close> fails with the
  error that \<^verbatim>\<open>'directory'\<close> is expected in the asset source. The calls after the initialization are
  the one that obtains the build engine and the look-up in the cache: the engine is never
  asked to build.
\<close>

theorem build_without_directory_fails:
  assumes "executable (source (asset this)) = None"
    and "directory (source (asset this)) = None"
    and "initOnce h this None tr = (Inr i, this1, tr1)"
    and "\<not> destinationAlreadyExists i"
    and "\<forall>t. \<not> aborted h t"
    and "forBuild h tr1 (repoUri i) (ecr i) (subprocessOutputDestination this) = Inr docker"
    and "docker_exists h (tr1 @ [ForBuild (repoUri i) (ecr i) (subprocessOutputDestination this)])
            docker (localTag (asset this)) = Inr False"
  shows "build h this tr =
           (Inl (directoryExpected h (source (asset this))), this1,
            tr1 @ [ForBuild (repoUri i) (ecr i) (subprocessOutputDestination this),
                   DockerExists docker (localTag (asset this))])"
proof -
  from initOnce_frame[OF assms(3)]
  have fr: "workDir this1 = workDir this" "asset this1 = asset this"
    "subprocessOutputDestination this1 = subprocessOutputDestination this" by simp_all
  let ?tr2 = "tr1 @ [ForBuild (repoUri i) (ecr i) (subprocessOutputDestination this)]"
  have "builder_build h docker (workDir this) (asset this) ?tr2 =
          (Inl (directoryExpected h (source (asset this))), ?tr2 @ [DockerExists docker (localTag (asset this))])"
    using assms(1,2,5,7) by (intro builder_build_no_source) auto
  then show ?thesis
    using assms(3,4,5,6) fr by (simp add: build_def)
qed

lemma example_init_absent:
  "initOnce (example_host False) (example_handler None None) None [] =
     (Inr \<lparr> ecr = ECRClient 0, repoUri = ''registry.example/myrepo'',
            imageUri = ''registry.example/myrepo:latest'', destinationAlreadyExists = False \<rparr>,
      (example_handler None None)
        \<lparr> init := Some \<lparr> ecr = ECRClient 0, repoUri = ''registry.example/myrepo'',
            imageUri = ''registry.example/myrepo:latest'', destinationAlreadyExists = False \<rparr> \<rparr>,
      [ReplaceAwsPlaceholders \<lparr>repositoryName = ''myrepo'', imageTag = ''latest''\<rparr>,
       EcrClient \<lparr>repositoryName = ''myrepo'', imageTag = ''latest''\<rparr> None,
       DescribeRepositories (ECRClient 0) ''myrepo'',
       EmitMessage CHECK ''Check registry.example/myrepo:latest'',
       DescribeImages (ECRClient 0) ''myrepo'' ''latest''])"
  by (simp add: initOnce_def example_host_def example_handler_def example_asset_def
        repositoryUri_def checkDestinationAlreadyExists_def imageExists_def Let_def)

lemma toLowerCase_example: "toLowerCase ''ABC123'' = ''abc123''"
  by code_simp

theorem build_without_directory_fails_witness:
  "fst (build (example_host False) (example_handler None None) []) =
     Inl (Error ([CHR 0x27] @ ''directory'' @ [CHR 0x27] @ '' is expected in the DockerImage asset source, got: {}''))
   \<and> snd (snd (build (example_host False) (example_handler None None) [])) =
      [ReplaceAwsPlaceholders \<lparr>repositoryName = ''myrepo'', imageTag = ''latest''\<rparr>,
       EcrClient \<lparr>repositoryName = ''myrepo'', imageTag = ''latest''\<rparr> None,
       DescribeRepositories (ECRClient 0) ''myrepo'',
       EmitMessage CHECK ''Check registry.example/myrepo:latest'',
       DescribeImages (ECRClient 0) ''myrepo'' ''latest'',
       ForBuild ''registry.example/myrepo'' (ECRClient 0) ''stdio'',
       DockerExists (DockerHandle 0) ''cdkasset-abc123'']"
proof -
  let ?h = "example_host False" and ?this = "example_handler None None"
  have a: "executable (source (asset ?this)) = None" "directory (source (asset ?this)) = None"
    by (simp_all add: example_handler_def example_asset_def example_source_def)
  have b: "\<not> destinationAlreadyExists \<lparr> ecr = ECRClient 0, repoUri = ''registry.example/myrepo'',
            imageUri = ''registry.example/myrepo:latest'', destinationAlreadyExists = False \<rparr>"
    by simp
  have c: "\<forall>t. \<not> aborted ?h t" by (simp add: example_host_def)
  have d: "forBuild ?h tr u c dst = Inr (DockerHandle 0)" for tr u c dst
    by (simp add: example_host_def)
  have e: "docker_exists ?h tr dk t = Inr False" for tr dk t
    by (simp add: example_host_def)
  note th = build_without_directory_fails [OF a example_init_absent b c d e]
  show ?thesis
    by (simp add: th)
      (simp add: example_handler_def example_asset_def example_source_def example_host_def
        directoryExpected_def localTag_def toLowerCase_example Error_def)
qed




section \<open>Properties of Manifest.validate\<close>

lemma validate_gate_passes:
  assumes "parseVersion env (JStr (version env)) = Inr localVersion"
    and "js_get manifest ''version'' = Inr v"
    and "parseVersion env v = Inr actual"
    and "semver_major env actual \<le> semver_major env localVersion \<or> flag_set options skipVersionCheck"
  shows "validate env manifest sch options = validateFormat env manifest sch options"
  using assms by (auto simp: validate_def Let_def)

lemma validate_gate_fails:
  assumes "parseVersion env (JStr (version env)) = Inr localVersion"
    and "js_get manifest ''version'' = Inr v"
    and "parseVersion env v = Inr actual"
    and "semver_major env localVersion < semver_major env actual"
    and "\<not> flag_set options skipVersionCheck"
  shows "validate env manifest sch options =
           Inl (Error (mismatchMessage (semver_major env localVersion) actual
                         (js_get_opt manifest ''minimumCliVersion'')))"
  using assms by (simp add: validate_def Let_def)

lemma validateFormat_accepts:
  assumes "preValidateProperties (jsonschema_visits env manifest sch) = Inr ()"
    and "retainedErrors env manifest sch options = []"
  shows "validateFormat env manifest sch options = Inr ()"
  using assms by (simp add: validateFormat_def)

lemma mismatch_prefix: "prefix VERSION_MISMATCH (mismatchMessage m a c)"
  by (simp add: mismatchMessage_def)

lemma mismatch_suffix: "suffix (cliWarning c) (mismatchMessage m a c)"
  unfolding mismatchMessage_def
  by (metis suffixI append.assoc)

text \<open>
  Claim C1, amended. The tool's own version and the candidate's \<^verbatim>\<open>version\<close> parse. If the
  candidate's major version is at most the tool's, \<^verbatim>\<open>validate\<close> is the validation of the format
  alone, and accepts when the hook raises nothing and no error is retained. If it is greater
  and the version check is not skipped, \<^verbatim>\<open>validate\<close> fails with a message that starts with the
  sentinel and, when the candidate's \<^verbatim>\<open>minimumCliVersion\<close> is truthy (a string that is not
  empty), ends with the suggestion of that version; when it is not truthy, the message ends
  with the version found.
\<close>

theorem version_gate:
  assumes "parseVersion env (JStr (version env)) = Inr localVersion"
    and "js_get manifest ''version'' = Inr v"
    and "parseVersion env v = Inr actual"
  shows "(semver_major env actual \<le> semver_major env localVersion \<longrightarrow>
            validate env manifest sch options = validateFormat env manifest sch options
            \<and> (preValidateProperties (jsonschema_visits env manifest sch) = Inr ()
                 \<and> retainedErrors env manifest sch options = []
               \<longrightarrow> validate env manifest sch options = Inr ()))
       \<and> (semver_major env localVersion < semver_major env actual
            \<and> \<not> flag_set options skipVersionCheck \<longrightarrow>
            (\<exists>msg. validate env manifest sch options = Inl (Error msg)
               \<and> prefix VERSION_MISMATCH msg
               \<and> (truthy (js_get_opt manifest ''minimumCliVersion'') \<longrightarrow>
                    suffix (''. You need at least CLI version ''
                              @ js_to_string (js_get_opt manifest ''minimumCliVersion'')
                              @ '' to read this manifest.'') msg)
               \<and> (\<not> truthy (js_get_opt manifest ''minimumCliVersion'') \<longrightarrow>
                    msg = VERSION_MISMATCH @ '': Maximum schema version supported is ''
                            @ show_nat (semver_major env localVersion) @ ''.x.x, but found '' @ actual)))"
proof (intro conjI impI)
  assume le: "semver_major env actual \<le> semver_major env localVersion"
  then show eq: "validate env manifest sch options = validateFormat env manifest sch options"
    using validate_gate_passes [OF assms] by simp
  assume "preValidateProperties (jsonschema_visits env manifest sch) = Inr ()
            \<and> retainedErrors env manifest sch options = []"
  then show "validate env manifest sch options = Inr ()"
    using eq by (simp add: validateFormat_accepts)
next
  assume gt: "semver_major env localVersion < semver_major env actual
            \<and> \<not> flag_set options skipVersionCheck"
  let ?c = "js_get_opt manifest ''minimumCliVersion''"
  let ?msg = "mismatchMessage (semver_major env localVersion) actual ?c"
  have "validate env manifest sch options = Inl (Error ?msg)"
    using validate_gate_fails [OF assms] gt by simp
  moreover have "prefix VERSION_MISMATCH ?msg" by (rule mismatch_prefix)
  moreover have "truthy ?c \<longrightarrow> suffix (''. You need at least CLI version '' @ js_to_string ?c
                              @ '' to read this manifest.'') ?msg"
  proof
    assume "truthy ?c"
    then have "cliWarning ?c = ''. You need at least CLI version '' @ js_to_string ?c
                              @ '' to read this manifest.''"
      unfolding cliWarning_def by (rule if_P)
    then show "suffix (''. You need at least CLI version '' @ js_to_string ?c
                              @ '' to read this manifest.'') ?msg"
      using mismatch_suffix[of ?c "semver_major env localVersion" actual] by (simp only:)
  qed
  moreover have "\<not> truthy ?c \<longrightarrow>
                    ?msg = VERSION_MISMATCH @ '': Maximum schema version supported is ''
                            @ show_nat (semver_major env localVersion) @ ''.x.x, but found '' @ actual"
    by (simp add: mismatchMessage_def cliWarning_def)
  ultimately show "\<exists>msg. validate env manifest sch options = Inl (Error msg)
               \<and> prefix VERSION_MISMATCH msg
               \<and> (truthy ?c \<longrightarrow>
                    suffix (''. You need at least CLI version '' @ js_to_string ?c
                              @ '' to read this manifest.'') msg)
               \<and> (\<not> truthy ?c \<longrightarrow>
                    msg = VERSION_MISMATCH @ '': Maximum schema version supported is ''
                            @ show_nat (semver_major env localVersion) @ ''.x.x, but found '' @ actual)"
    by blast
qed

lemma example_local_version:
  "parseVersion (example_env ds es) (JStr (version (example_env ds es))) = Inr ''38.0.0''"
  by code_simp

lemma example_parse_38: "parseVersion (example_env ds es) (JStr ''38.5.0'') = Inr ''38.5.0''"
  by code_simp

lemma example_parse_999: "parseVersion (example_env ds es) (JStr ''999.0.0'') = Inr ''999.0.0''"
  by code_simp

lemma example_majors:
  "semver_major (example_env ds es) ''38.0.0'' = 38"
  "semver_major (example_env ds es) ''38.5.0'' = 38"
  "semver_major (example_env ds es) ''999.0.0'' = 999"
  by code_simp+

text \<open>
  The claim C1 as it is stated fails on a candidate that declares an empty
  \<^verbatim>\<open>minimumCliVersion\<close>: the message of the version gate carries no suggestion.
\<close>

theorem version_gate_counterexample:
  "js_get (JObj [(''version'', JStr ''999.0.0''), (''minimumCliVersion'', JStr '''')]) ''minimumCliVersion''
     = Inr (JStr '''')
   \<and> validate (example_env [] []) (JObj [(''version'', JStr ''999.0.0''), (''minimumCliVersion'', JStr '''')])
       (ASSEMBLY_SCHEMA (example_env [] [])) None
     = Inl (Error ''Cloud assembly schema version mismatch: Maximum schema version supported is 38.x.x, but found 999.0.0'')
   \<and> \<not> sublist ''You need at least CLI version''
         ''Cloud assembly schema version mismatch: Maximum schema version supported is 38.x.x, but found 999.0.0''"
proof (intro conjI)
  let ?m = "JObj [(''version'', JStr ''999.0.0''), (''minimumCliVersion'', JStr '''')]"
  show "js_get ?m ''minimumCliVersion'' = Inr (JStr '''')" by simp
  have "validate (example_env [] []) ?m (ASSEMBLY_SCHEMA (example_env [] [])) None =
          Inl (Error (mismatchMessage 38 ''999.0.0'' (js_get_opt ?m ''minimumCliVersion'')))"
    using validate_gate_fails [OF example_local_version [of "[]" "[]"] _ example_parse_999 [of "[]" "[]"],
            where manifest = ?m and options = None]
    by (simp add: example_majors flag_set_def)
  also have "mismatchMessage 38 ''999.0.0'' (js_get_opt ?m ''minimumCliVersion'')
        = ''Cloud assembly schema version mismatch: Maximum schema version supported is 38.x.x, but found 999.0.0''"
    by code_simp
  finally show "validate (example_env [] []) ?m (ASSEMBLY_SCHEMA (example_env [] [])) None
     = Inl (Error ''Cloud assembly schema version mismatch: Maximum schema version supported is 38.x.x, but found 999.0.0'')" .
  show "\<not> sublist ''You need at least CLI version''
         ''Cloud assembly schema version mismatch: Maximum schema version supported is 38.x.x, but found 999.0.0''"
    by code_simp
qed

lemmas example_schema_defs =
  assembly_schema_def assets_schema_def artifact_schema_def metadata_entry_schema_def
  stack_properties_schema_def string_schema_def

lemma example_visits_ok:
  "preValidateProperties (jsonschema_visits (example_env ds es) (tagged_manifest v disk_tag)
      (ASSEMBLY_SCHEMA (example_env ds es))) = Inr ()"
  "preValidateProperties (jsonschema_visits (example_env ds es) (tagged_manifest v mem_tag)
      (ASSEMBLY_SCHEMA (example_env ds es))) = Inr ()"
  "preValidateProperties (jsonschema_visits (example_env ds es) (tagged_manifest v disk_tag)
      (ASSETS_SCHEMA (example_env ds es))) = Inr ()"
  "preValidateProperties (jsonschema_visits (example_env ds es) (tagged_manifest v mem_tag)
      (ASSETS_SCHEMA (example_env ds es))) = Inr ()"
  by (simp_all add: example_env_def example_schema_defs tagged_manifest_def disk_tag_def mem_tag_def
        validateAssumeRoleAdditionalOptions_def)

theorem version_gate_witness:
  "validate (example_env [] []) (tagged_manifest ''38.5.0'' disk_tag)
       (ASSEMBLY_SCHEMA (example_env [] [])) None = Inr ()
   \<and> (\<exists>msg. validate (example_env [] [])
                (JObj [(''version'', JStr ''999.0.0''), (''minimumCliVersion'', JStr ''2.2000.0'')])
                (ASSEMBLY_SCHEMA (example_env [] [])) None = Inl (Error msg)
            \<and> prefix ''Cloud assembly schema version mismatch'' msg
            \<and> suffix ''. You need at least CLI version 2.2000.0 to read this manifest.'' msg)
   \<and> validate (example_env [] [])
         (JObj [(''version'', JStr ''999.0.0''), (''minimumCliVersion'', JStr [])])
         (ASSEMBLY_SCHEMA (example_env [] [])) None
       = Inl (Error ''Cloud assembly schema version mismatch: Maximum schema version supported is 38.x.x, but found 999.0.0'')"
proof -
  let ?env = "example_env [] []"
  let ?m1 = "tagged_manifest ''38.5.0'' disk_tag"
  let ?m2 = "JObj [(''version'', JStr ''999.0.0''), (''minimumCliVersion'', JStr ''2.2000.0'')]"
  have v1: "js_get ?m1 ''version'' = Inr (JStr ''38.5.0'')" by (simp add: tagged_manifest_def)
  have v2: "js_get ?m2 ''version'' = Inr (JStr ''999.0.0'')" by simp
  have pre: "preValidateProperties (jsonschema_visits ?env ?m1 (ASSEMBLY_SCHEMA ?env)) = Inr ()"
    by (simp add: example_visits_ok)
  have ret: "retainedErrors ?env ?m1 (ASSEMBLY_SCHEMA ?env) None = []"
    by (simp add: retainedErrors_def flag_set_def example_env_def)
  from version_gate [OF example_local_version [of "[]" "[]"] v1 example_parse_38 [of "[]" "[]"],
         where sch = "ASSEMBLY_SCHEMA ?env" and options = None]
  have 1: "validate ?env ?m1 (ASSEMBLY_SCHEMA ?env) None = Inr ()"
    by (auto simp: example_majors pre ret)
  from version_gate [OF example_local_version [of "[]" "[]"] v2 example_parse_999 [of "[]" "[]"],
         where sch = "ASSEMBLY_SCHEMA ?env" and options = None]
  have 2: "\<exists>msg. validate ?env ?m2 (ASSEMBLY_SCHEMA ?env) None = Inl (Error msg)
            \<and> prefix VERSION_MISMATCH msg
            \<and> suffix ''. You need at least CLI version 2.2000.0 to read this manifest.'' msg"
    by (simp add: example_majors flag_set_def)
  let ?m3 = "JObj [(''version'', JStr ''999.0.0''), (''minimumCliVersion'', JStr [])]"
  have v3: "js_get ?m3 ''version'' = Inr (JStr ''999.0.0'')" by simp
  from version_gate [OF example_local_version [of "[]" "[]"] v3 example_parse_999 [of "[]" "[]"],
         where sch = "ASSEMBLY_SCHEMA ?env" and options = None]
  have 3: "validate ?env ?m3 (ASSEMBLY_SCHEMA ?env) None
             = Inl (Error (VERSION_MISMATCH @ '': Maximum schema version supported is ''
                             @ show_nat 38 @ ''.x.x, but found 999.0.0''))"
    by (auto simp: example_majors flag_set_def)
  have "show_nat 38 = ''38''" by code_simp
  with 1 2 3 show ?thesis by (simp add: VERSION_MISMATCH_def)
qed

lemma strip_filter: "stripEnumErrors errors = filter (\<lambda>e. \<not> has_enum (schema e)) errors"
proof -
  have "keepError e = (\<not> has_enum (schema e))" for e
    by (cases "schema e") simp_all
  then show ?thesis unfolding stripEnumErrors_def by presburger
qed

text \<open>
  Claim C9, amended. With the enum relaxation on, validation discards exactly the collected
  errors whose schema is given inline and carries the keyword \<^verbatim>\<open>enum\<close>, whatever keyword
  failed, and retains every other error; with the relaxation off it retains all of them.
  A manifest on which the hook raises nothing and whose errors all come from such schemas
  is accepted with the relaxation on and rejected with it off.
\<close>

theorem enum_relaxation:
  "set (stripEnumErrors errors) = {e \<in> set errors. \<not> has_enum (schema e)}
   \<and> (flag_set options skipEnumCheck \<longrightarrow>
        retainedErrors env manifest sch options
          = filter (\<lambda>e. \<not> has_enum (schema e)) (jsonschema_errors env manifest sch))
   \<and> (\<not> flag_set options skipEnumCheck \<longrightarrow>
        retainedErrors env manifest sch options = jsonschema_errors env manifest sch)
   \<and> (preValidateProperties (jsonschema_visits env manifest sch) = Inr ()
        \<and> jsonschema_errors env manifest sch \<noteq> []
        \<and> (\<forall>e\<in>set (jsonschema_errors env manifest sch). has_enum (schema e)) \<longrightarrow>
        (flag_set options skipEnumCheck \<longrightarrow> validateFormat env manifest sch options = Inr ())
        \<and> (\<not> flag_set options skipEnumCheck \<longrightarrow>
             validateFormat env manifest sch options =
               Inl (Error (''Invalid assembly manifest:'' @ [CHR 0x0A]
                     @ join [CHR 0x0A] (map stack (jsonschema_errors env manifest sch))))))"
proof (intro conjI impI)
  show "set (stripEnumErrors errors) = {e \<in> set errors. \<not> has_enum (schema e)}"
    by (auto simp: strip_filter)
next
  assume "flag_set options skipEnumCheck"
  then show "retainedErrors env manifest sch options
          = filter (\<lambda>e. \<not> has_enum (schema e)) (jsonschema_errors env manifest sch)"
    by (simp add: retainedErrors_def strip_filter)
next
  assume "\<not> flag_set options skipEnumCheck"
  then show "retainedErrors env manifest sch options = jsonschema_errors env manifest sch"
    by (simp add: retainedErrors_def)
next
  assume a: "preValidateProperties (jsonschema_visits env manifest sch) = Inr ()
        \<and> jsonschema_errors env manifest sch \<noteq> []
        \<and> (\<forall>e\<in>set (jsonschema_errors env manifest sch). has_enum (schema e))"
    and f: "flag_set options skipEnumCheck"
  from a have "filter (\<lambda>e. \<not> has_enum (schema e)) (jsonschema_errors env manifest sch) = []"
    by (simp add: filter_empty_conv)
  then show "validateFormat env manifest sch options = Inr ()"
    using a f by (simp add: validateFormat_def retainedErrors_def strip_filter)
next
  assume a: "preValidateProperties (jsonschema_visits env manifest sch) = Inr ()
        \<and> jsonschema_errors env manifest sch \<noteq> []
        \<and> (\<forall>e\<in>set (jsonschema_errors env manifest sch). has_enum (schema e))"
    and f: "\<not> flag_set options skipEnumCheck"
  then show "validateFormat env manifest sch options =
               Inl (Error (''Invalid assembly manifest:'' @ [CHR 0x0A]
                     @ join [CHR 0x0A] (map stack (jsonschema_errors env manifest sch))))"
    by (simp add: validateFormat_def retainedErrors_def)
qed

text \<open>
  The claim C9 as it is stated fails on the two errors of a number in the place of an
  artifact type: the error of the keyword \<^verbatim>\<open>type\<close> is discarded with the error of the keyword
  \<^verbatim>\<open>enum\<close>, since both come from the schema that carries \<^verbatim>\<open>enum\<close>.
\<close>

theorem enum_relaxation_counterexample:
  "name type_error = ''type''
   \<and> stripEnumErrors [type_error, enum_error] = []
   \<and> filter (\<lambda>e. name e \<noteq> ''enum'') [type_error, enum_error] = [type_error]"
  by (simp add: type_error_def enum_error_def stripEnumErrors_def artifact_type_schema_def)

theorem enum_relaxation_witness:
  "validateFormat (example_env [] [enum_error]) (tagged_manifest ''38.0.0'' disk_tag)
      (ASSEMBLY_SCHEMA (example_env [] [enum_error])) skipEnum = Inr ()
   \<and> validateFormat (example_env [] [enum_error]) (tagged_manifest ''38.0.0'' disk_tag)
      (ASSEMBLY_SCHEMA (example_env [] [enum_error])) None
       = Inl (Error (''Invalid assembly manifest:'' @ [CHR 0x0A]
               @ ''instance.artifacts.stack.type is not one of enum values: aws:cloudformation:stack''))"
proof -
  let ?env = "example_env [] [enum_error]"
  let ?m = "tagged_manifest ''38.0.0'' disk_tag"
  have e: "jsonschema_errors ?env ?m sch = [enum_error]" for sch
    by (simp add: example_env_def)
  have h: "has_enum (schema enum_error)"
    by (simp add: enum_error_def artifact_type_schema_def)
  have on: "flag_set skipEnum skipEnumCheck" and off: "\<not> flag_set None skipEnumCheck"
    by (simp_all add: flag_set_def skipEnum_def)
  from enum_relaxation [of "[]" skipEnum ?env ?m "ASSEMBLY_SCHEMA ?env"] on
  have 1: "validateFormat ?env ?m (ASSEMBLY_SCHEMA ?env) skipEnum = Inr ()"
    by (simp add: e h example_visits_ok)
  from enum_relaxation [of "[]" None ?env ?m "ASSEMBLY_SCHEMA ?env"] off
  have 2: "validateFormat ?env ?m (ASSEMBLY_SCHEMA ?env) None =
      Inl (Error (''Invalid assembly manifest:'' @ [CHR 0x0A] @ join [CHR 0x0A] (map stack [enum_error])))"
    by (simp add: e h example_visits_ok)
  show ?thesis using 1 2 by (simp add: enum_error_def)
qed

lemma hook_other_key:
  "key \<noteq> ''assumeRoleAdditionalOptions'' \<Longrightarrow> validateAssumeRoleAdditionalOptions instance key = Inr ()"
  by (simp add: validateAssumeRoleAdditionalOptions_def)

lemma hook_result:
  "validateAssumeRoleAdditionalOptions (JObj props) key = Inr ()
   \<or> validateAssumeRoleAdditionalOptions (JObj props) key = Inl (Error RoleArn_message)
   \<or> validateAssumeRoleAdditionalOptions (JObj props) key = Inl (Error ExternalId_message)"
  by (auto simp: validateAssumeRoleAdditionalOptions_def RoleArn_message_def
        ExternalId_message_def split: option.splits)

lemma hook_ok_iff:
  "validateAssumeRoleAdditionalOptions (JObj props) key = Inr ()
     \<longleftrightarrow> \<not> (key = ''assumeRoleAdditionalOptions'' \<and> forbidden props)"
  by (auto simp: validateAssumeRoleAdditionalOptions_def forbidden_def Error_def split: option.splits)

lemma preValidate_fails:
  "(props, ''assumeRoleAdditionalOptions'') \<in> set visits \<Longrightarrow> forbidden props \<Longrightarrow>
     preValidateProperties visits = Inl (Error RoleArn_message)
     \<or> preValidateProperties visits = Inl (Error ExternalId_message)"
proof (induction visits)
  case Nil
  then show ?case by simp
next
  case (Cons pk visits)
  obtain p k where pk: "pk = (p, k)" by (cases pk)
  from hook_result [of p k] show ?case
  proof (elim disjE)
    assume ok: "validateAssumeRoleAdditionalOptions (JObj p) k = Inr ()"
    then have "\<not> (k = ''assumeRoleAdditionalOptions'' \<and> forbidden p)" by (simp add: hook_ok_iff)
    with Cons.prems pk have "(props, ''assumeRoleAdditionalOptions'') \<in> set visits" by auto
    from Cons.IH [OF this Cons.prems(2)] show ?thesis using ok pk by simp
  qed (simp_all add: pk)
qed

lemma preValidate_passes:
  "(\<forall>(p, k)\<in>set visits. k \<noteq> ''assumeRoleAdditionalOptions'' \<or> \<not> forbidden p) \<Longrightarrow>
     preValidateProperties visits = Inr ()"
proof (induction visits)
  case Nil
  then show ?case by simp
next
  case (Cons pk visits)
  obtain p k where pk: "pk = (p, k)" by (cases pk)
  with Cons.prems have "validateAssumeRoleAdditionalOptions (JObj p) k = Inr ()"
    by (auto simp: hook_ok_iff)
  with Cons pk show ?case by simp
qed

text \<open>
  Claim C5, amended. When the version gate lets the candidate through and the walk of the
  validator reaches a property named \<^verbatim>\<open>assumeRoleAdditionalOptions\<close> whose value has a \<^verbatim>\<open>RoleArn\<close> or
  an \<^verbatim>\<open>ExternalId\<close> that is truthy, validation fails with one of the two dedicated errors. The
  hook accepts a property of any other name, whatever the object that holds it, and raises
  nothing when no property the walk reaches has that name.
\<close>

theorem forbidden_fields:
  "(parseVersion env (JStr (version env)) = Inr localVersion
      \<and> js_get manifest ''version'' = Inr v
      \<and> parseVersion env v = Inr actual
      \<and> (semver_major env actual \<le> semver_major env localVersion \<or> flag_set options skipVersionCheck)
      \<and> (props, ''assumeRoleAdditionalOptions'') \<in> set (jsonschema_visits env manifest sch)
      \<and> map_of props ''assumeRoleAdditionalOptions'' = Some opts
      \<and> (truthy (js_get_opt opts ''RoleArn'') \<or> truthy (js_get_opt opts ''ExternalId''))
    \<longrightarrow> validate env manifest sch options = Inl (Error RoleArn_message)
        \<or> validate env manifest sch options = Inl (Error ExternalId_message))
   \<and> (key \<noteq> ''assumeRoleAdditionalOptions'' \<longrightarrow>
         validateAssumeRoleAdditionalOptions holder key = Inr ())
   \<and> ((\<forall>(p, k)\<in>set (jsonschema_visits env manifest sch). k \<noteq> ''assumeRoleAdditionalOptions'') \<longrightarrow>
         preValidateProperties (jsonschema_visits env manifest sch) = Inr ())"
proof (intro conjI impI)
  assume a: "parseVersion env (JStr (version env)) = Inr localVersion
      \<and> js_get manifest ''version'' = Inr v
      \<and> parseVersion env v = Inr actual
      \<and> (semver_major env actual \<le> semver_major env localVersion \<or> flag_set options skipVersionCheck)
      \<and> (props, ''assumeRoleAdditionalOptions'') \<in> set (jsonschema_visits env manifest sch)
      \<and> map_of props ''assumeRoleAdditionalOptions'' = Some opts
      \<and> (truthy (js_get_opt opts ''RoleArn'') \<or> truthy (js_get_opt opts ''ExternalId''))"
  then have g: "validate env manifest sch options = validateFormat env manifest sch options"
    using validate_gate_passes [of env localVersion manifest v actual options sch] by blast
  from a have "forbidden props" by (simp add: forbidden_def)
  with a have "preValidateProperties (jsonschema_visits env manifest sch) = Inl (Error RoleArn_message)
     \<or> preValidateProperties (jsonschema_visits env manifest sch) = Inl (Error ExternalId_message)"
    by (intro preValidate_fails) auto
  then have "validateFormat env manifest sch options = Inl (Error RoleArn_message)
     \<or> validateFormat env manifest sch options = Inl (Error ExternalId_message)"
    by (auto simp: validateFormat_def)
  with g show "validate env manifest sch options = Inl (Error RoleArn_message)
        \<or> validate env manifest sch options = Inl (Error ExternalId_message)" by simp
next
  assume "key \<noteq> ''assumeRoleAdditionalOptions''"
  then show "validateAssumeRoleAdditionalOptions holder key = Inr ()" by (rule hook_other_key)
next
  assume "\<forall>(p, k)\<in>set (jsonschema_visits env manifest sch). k \<noteq> ''assumeRoleAdditionalOptions''"
  then show "preValidateProperties (jsonschema_visits env manifest sch) = Inr ()"
    by (intro preValidate_passes) auto
qed

lemma smuggled_gate:
  "validate (example_env [] []) (smuggled key opts) sch options
     = validateFormat (example_env [] []) (smuggled key opts) sch options"
  if "key \<noteq> ''version''"
  using validate_gate_passes [OF example_local_version [of "[]" "[]"] _ example_parse_38 [of "[]" "[]"],
          where manifest = "smuggled key opts"] that
  by (simp add: smuggled_def example_majors)

lemma stack_manifest_gate:
  "validate (example_env [] []) (stack_manifest props) sch options
     = validateFormat (example_env [] []) (stack_manifest props) sch options"
  using validate_gate_passes [OF example_local_version [of "[]" "[]"] _ example_parse_38 [of "[]" "[]"],
          where manifest = "stack_manifest props"]
  by (simp add: stack_manifest_def example_majors)

lemma smuggled_visits:
  "jsonschema_visits (example_env [] []) (smuggled key opts) (ASSEMBLY_SCHEMA (example_env [] []))
     = [(js_entries (smuggled key opts), ''version''),
        (js_entries (smuggled key opts), ''minimumCliVersion''),
        (js_entries (smuggled key opts), ''artifacts'')]"
  if "key \<noteq> ''artifacts''"
  using that by (simp add: example_env_def example_schema_defs smuggled_def)

text \<open>
  The claim C5 as it is stated fails on a property \<^verbatim>\<open>assumeRoleAdditionalOptions\<close> at the top of
  the manifest, where the schema declares no such property: its \<^verbatim>\<open>RoleArn\<close> is a role, the walk
  of the validator calls the hook on \<^verbatim>\<open>version\<close>, \<^verbatim>\<open>minimumCliVersion\<close> and \<^verbatim>\<open>artifacts\<close> only, and the
  manifest is accepted.
\<close>

theorem forbidden_fields_counterexample:
  "js_get (smuggled ''assumeRoleAdditionalOptions'' (JObj [(''RoleArn'', role_arn)]))
         ''assumeRoleAdditionalOptions'' = Inr (JObj [(''RoleArn'', role_arn)])
   \<and> truthy (js_get_opt (JObj [(''RoleArn'', role_arn)]) ''RoleArn'')
   \<and> jsonschema_visits (example_env [] [])
         (smuggled ''assumeRoleAdditionalOptions'' (JObj [(''RoleArn'', role_arn)]))
         (ASSEMBLY_SCHEMA (example_env [] []))
       = [(js_entries (smuggled ''assumeRoleAdditionalOptions'' (JObj [(''RoleArn'', role_arn)])), ''version''),
          (js_entries (smuggled ''assumeRoleAdditionalOptions'' (JObj [(''RoleArn'', role_arn)])), ''minimumCliVersion''),
          (js_entries (smuggled ''assumeRoleAdditionalOptions'' (JObj [(''RoleArn'', role_arn)])), ''artifacts'')]
   \<and> validate (example_env [] [])
         (smuggled ''assumeRoleAdditionalOptions'' (JObj [(''RoleArn'', role_arn)]))
         (ASSEMBLY_SCHEMA (example_env [] [])) None = Inr ()"
proof -
  let ?m = "smuggled ''assumeRoleAdditionalOptions'' (JObj [(''RoleArn'', role_arn)])"
  have "validateFormat (example_env [] []) ?m (ASSEMBLY_SCHEMA (example_env [] [])) None = Inr ()"
    by (simp add: validateFormat_def smuggled_visits)
      (simp add: retainedErrors_def flag_set_def example_env_def validateAssumeRoleAdditionalOptions_def)
  then have "validate (example_env [] []) ?m (ASSEMBLY_SCHEMA (example_env [] [])) None = Inr ()"
    by (simp add: smuggled_gate)
  then show ?thesis
    by (simp add: smuggled_visits) (simp add: smuggled_def role_arn_def)
qed

text \<open>
  The same object at the place where the schema declares the property, in the properties of
  a stack, is rejected; under the name \<^verbatim>\<open>parameters\<close>, which the walk reaches too, it is accepted.
\<close>

theorem forbidden_fields_witness:
  "validate (example_env [] [])
      (stack_manifest [(''templateFile'', JStr ''stack.template.json''),
                       (''assumeRoleAdditionalOptions'', JObj [(''RoleArn'', role_arn)])])
      (ASSEMBLY_SCHEMA (example_env [] [])) None = Inl (Error RoleArn_message)
   \<and> validate (example_env [] [])
      (stack_manifest [(''templateFile'', JStr ''stack.template.json''),
                       (''assumeRoleAdditionalOptions'', JObj [(''ExternalId'', JStr ''external'')])])
      (ASSEMBLY_SCHEMA (example_env [] [])) None = Inl (Error ExternalId_message)
   \<and> validate (example_env [] [])
      (stack_manifest [(''templateFile'', JStr ''stack.template.json''),
                       (''parameters'', JObj [(''RoleArn'', role_arn)])])
      (ASSEMBLY_SCHEMA (example_env [] [])) None = Inr ()
   \<and> validateAssumeRoleAdditionalOptions
        (JObj [(''templateFile'', JStr ''stack.template.json''),
               (''parameters'', JObj [(''RoleArn'', role_arn)])]) ''parameters'' = Inr ()
   \<and> preValidateProperties (jsonschema_visits (example_env [] [])
         (smuggled ''otherOptions'' (JObj [(''RoleArn'', role_arn)]))
         (ASSEMBLY_SCHEMA (example_env [] []))) = Inr ()"
proof -
  let ?env = "example_env [] []"
  let ?sch = "ASSEMBLY_SCHEMA ?env"
  let ?p1 = "[(''templateFile'', JStr ''stack.template.json''),
              (''assumeRoleAdditionalOptions'', JObj [(''RoleArn'', role_arn)])]"
  let ?p2 = "[(''templateFile'', JStr ''stack.template.json''),
              (''assumeRoleAdditionalOptions'', JObj [(''ExternalId'', JStr ''external'')])]"
  let ?p3 = "[(''templateFile'', JStr ''stack.template.json''),
              (''parameters'', JObj [(''RoleArn'', role_arn)])]"
  have ver: "js_get (stack_manifest ps) ''version'' = Inr (JStr ''38.5.0'')" for ps
    by (simp add: stack_manifest_def)
  have gate: "semver_major ?env ''38.5.0'' \<le> semver_major ?env ''38.0.0''"
    by (simp add: example_majors)
  have v1: "(?p1, ''assumeRoleAdditionalOptions'') \<in> set (jsonschema_visits ?env (stack_manifest ?p1) ?sch)"
    by (simp add: example_env_def example_schema_defs stack_manifest_def)
  have v2: "(?p2, ''assumeRoleAdditionalOptions'') \<in> set (jsonschema_visits ?env (stack_manifest ?p2) ?sch)"
    by (simp add: example_env_def example_schema_defs stack_manifest_def)
  have t1: "truthy (js_get_opt (JObj [(''RoleArn'', role_arn)]) ''RoleArn'')"
    by (simp add: role_arn_def)
  from forbidden_fields [where env = ?env and manifest = "stack_manifest ?p1" and sch = ?sch
          and props = ?p1 and opts = "JObj [(''RoleArn'', role_arn)]" and options = None
          and localVersion = "''38.0.0''" and v = "JStr ''38.5.0''" and actual = "''38.5.0''"
          and key = "''parameters''" and holder = "JObj ?p3"]
    v1 t1 ver gate example_local_version [of "[]" "[]"] example_parse_38 [of "[]" "[]"]
  have d1: "validate ?env (stack_manifest ?p1) ?sch None = Inl (Error RoleArn_message)
        \<or> validate ?env (stack_manifest ?p1) ?sch None = Inl (Error ExternalId_message)"
    and h: "validateAssumeRoleAdditionalOptions (JObj ?p3) ''parameters'' = Inr ()"
    by simp_all
  have ne1: "validateFormat ?env (stack_manifest ?p1) ?sch None \<noteq> Inl (Error ExternalId_message)"
    by (simp add: validateFormat_def example_env_def example_schema_defs stack_manifest_def
          validateAssumeRoleAdditionalOptions_def Error_def ExternalId_message_def role_arn_def)
  from d1 ne1 have 1: "validate ?env (stack_manifest ?p1) ?sch None = Inl (Error RoleArn_message)"
    by (simp add: stack_manifest_gate)
  from forbidden_fields [where env = ?env and manifest = "stack_manifest ?p2" and sch = ?sch
          and props = ?p2 and opts = "JObj [(''ExternalId'', JStr ''external'')]" and options = None
          and localVersion = "''38.0.0''" and v = "JStr ''38.5.0''" and actual = "''38.5.0''"]
    v2 ver gate example_local_version [of "[]" "[]"] example_parse_38 [of "[]" "[]"]
  have d2: "validate ?env (stack_manifest ?p2) ?sch None = Inl (Error RoleArn_message)
        \<or> validate ?env (stack_manifest ?p2) ?sch None = Inl (Error ExternalId_message)"
    by simp
  have ne2: "validateFormat ?env (stack_manifest ?p2) ?sch None \<noteq> Inl (Error RoleArn_message)"
    by (simp add: validateFormat_def example_env_def example_schema_defs stack_manifest_def
          validateAssumeRoleAdditionalOptions_def Error_def RoleArn_message_def)
  from d2 ne2 have 2: "validate ?env (stack_manifest ?p2) ?sch None = Inl (Error ExternalId_message)"
    by (simp add: stack_manifest_gate)
  have "validateFormat ?env (stack_manifest ?p3) ?sch None = Inr ()"
    by (simp add: validateFormat_def retainedErrors_def flag_set_def example_env_def
          example_schema_defs stack_manifest_def validateAssumeRoleAdditionalOptions_def)
  then have 3: "validate ?env (stack_manifest ?p3) ?sch None = Inr ()"
    by (simp add: stack_manifest_gate)
  from forbidden_fields [where env = ?env and manifest = "smuggled ''otherOptions'' (JObj [(''RoleArn'', role_arn)])"
          and sch = ?sch]
  have 4: "preValidateProperties (jsonschema_visits ?env
             (smuggled ''otherOptions'' (JObj [(''RoleArn'', role_arn)])) ?sch) = Inr ()"
    by (simp add: smuggled_visits)
  from 1 2 3 h 4 show ?thesis by simp
qed

section \<open>Properties of Manifest.saveManifest and Manifest.loadManifest\<close>

lemma map_of_obj_set: "map_of (obj_set kvs k v) = (map_of kvs)(k \<mapsto> v)"
  by (induction kvs) (auto simp: fun_eq_iff)

lemma obj_set_twice: "obj_set (obj_set kvs k a) k b = obj_set kvs k b"
  by (induction kvs) auto

lemma obj_set_overwrite:
  "k \<noteq> k' \<Longrightarrow>
   obj_set (obj_set (obj_set (obj_set kvs k x) k' y) k a) k' b = obj_set (obj_set kvs k a) k' b"
  by (induction kvs) (auto simp: obj_set_twice)

lemma withVersion_get:
  "js_get_opt (withVersion env manifest) k =
     (if k = ''minimumCliVersion'' then cliVersion env
      else if k = ''version'' then JStr (version env)
      else (case map_of (js_entries manifest) k of None \<Rightarrow> JUndefined | Some x \<Rightarrow> x))"
  by (simp add: withVersion_def map_of_obj_set)

text \<open>
  Claim C8. \<^verbatim>\<open>saveManifest\<close> builds the manifest with \<^verbatim>\<open>version\<close> and \<^verbatim>\<open>minimumCliVersion\<close> set to the
  tool's values and every other property of the input kept; the values the caller gave
  to the two fields have no effect. It validates this object: on a failure nothing is
  written. Only then the patch, if there is one, is applied, and its result is written as
  it is, whether it would pass validation or not; an exception of the patch ends the call.
\<close>

theorem save_stamps_validates_then_patches:
  "js_get_opt (withVersion env manifest) ''version'' = JStr (version env)
   \<and> js_get_opt (withVersion env manifest) ''minimumCliVersion'' = cliVersion env
   \<and> (k \<noteq> ''version'' \<and> k \<noteq> ''minimumCliVersion'' \<longrightarrow>
        js_get_opt (withVersion env manifest) k
          = (case map_of (js_entries manifest) k of None \<Rightarrow> JUndefined | Some x \<Rightarrow> x))
   \<and> withVersion env (JObj (obj_set (obj_set kvs ''version'' x) ''minimumCliVersion'' y))
        = withVersion env (JObj kvs)
   \<and> (validate env (withVersion env manifest) sch None = Inl e \<longrightarrow>
        saveManifest env fs manifest filePath sch preprocess = Inl e)
   \<and> (validate env (withVersion env manifest) sch None = Inr () \<longrightarrow>
        saveManifest env fs manifest filePath sch None
          = Inr (fs(filePath \<mapsto> JSON_stringify env (withVersion env manifest) 2))
        \<and> (patch (withVersion env manifest) = Inr patched \<longrightarrow>
             saveManifest env fs manifest filePath sch (Some patch)
               = Inr (fs(filePath \<mapsto> JSON_stringify env patched 2)))
        \<and> (patch (withVersion env manifest) = Inl e' \<longrightarrow>
             saveManifest env fs manifest filePath sch (Some patch) = Inl e'))"
proof -
  have "withVersion env (JObj (obj_set (obj_set kvs ''version'' x) ''minimumCliVersion'' y))
        = withVersion env (JObj kvs)"
    by (simp add: withVersion_def obj_set_overwrite)
  then show ?thesis
    by (simp add: withVersion_get saveManifest_def)
qed

lemma stamp_example:
  "withVersion (rejecting_env bad) (tagged_manifest ''1.0.0'' tag) = stamped_manifest tag"
  by (simp add: withVersion_def tagged_manifest_def stamped_manifest_def rejecting_env_def
        example_env_def version_def cliVersion_def)

lemma stamp_example_env:
  "withVersion (example_env ds es) (tagged_manifest ''1.0.0'' tag) = stamped_manifest tag"
  by (simp add: withVersion_def tagged_manifest_def stamped_manifest_def
        example_env_def version_def cliVersion_def)

lemma write_patch_example:
  "patchStackTagsOnWrite (rejecting_env bad) (stamped_manifest mem_tag) = Inr (stamped_manifest disk_tag)"
  by (simp add: patchStackTagsOnWrite_def replaceStackTags_def replaceArtifact_def replaceEntry_def
        mapValues_def noUndefined_def write_tags_def stamped_manifest_def tagged_manifest_def
        mem_tag_def disk_tag_def rejecting_env_def example_env_def)

lemma rejecting_env_validate:
  "validate (rejecting_env (stamped_manifest disk_tag)) (stamped_manifest mem_tag)
     (ASSEMBLY_SCHEMA (rejecting_env (stamped_manifest disk_tag))) None = Inr ()"
  "validate (rejecting_env (stamped_manifest disk_tag)) (stamped_manifest disk_tag)
     (ASSEMBLY_SCHEMA (rejecting_env (stamped_manifest disk_tag))) None
     = Inl (Error (''Invalid assembly manifest:'' @ [CHR 0x0A]
                    @ ''instance.artifacts.stack.type is not of a type(s) string''))"
  "validate (rejecting_env (stamped_manifest mem_tag)) (stamped_manifest mem_tag)
     (ASSEMBLY_SCHEMA (rejecting_env (stamped_manifest mem_tag))) None
     = Inl (Error (''Invalid assembly manifest:'' @ [CHR 0x0A]
                    @ ''instance.artifacts.stack.type is not of a type(s) string''))"
  by code_simp+

theorem save_stamps_validates_then_patches_witness:
  "saveManifest (rejecting_env (stamped_manifest disk_tag)) Map.empty (tagged_manifest ''1.0.0'' mem_tag)
       ''manifest.json'' (ASSEMBLY_SCHEMA (rejecting_env (stamped_manifest disk_tag)))
       (Some (patchStackTagsOnWrite (rejecting_env (stamped_manifest disk_tag))))
     = Inr [''manifest.json'' \<mapsto> example_stringify (stamped_manifest disk_tag)]
   \<and> validate (rejecting_env (stamped_manifest disk_tag)) (stamped_manifest disk_tag)
       (ASSEMBLY_SCHEMA (rejecting_env (stamped_manifest disk_tag))) None
     = Inl (Error (''Invalid assembly manifest:'' @ [CHR 0x0A]
                    @ ''instance.artifacts.stack.type is not of a type(s) string''))
   \<and> saveManifest (rejecting_env (stamped_manifest mem_tag)) Map.empty (tagged_manifest ''1.0.0'' mem_tag)
       ''manifest.json'' (ASSEMBLY_SCHEMA (rejecting_env (stamped_manifest mem_tag)))
       (Some (patchStackTagsOnWrite (rejecting_env (stamped_manifest mem_tag))))
     = Inl (Error (''Invalid assembly manifest:'' @ [CHR 0x0A]
                    @ ''instance.artifacts.stack.type is not of a type(s) string''))
   \<and> js_get_opt (withVersion (example_env [] []) (tagged_manifest ''1.0.0'' mem_tag)) ''artifacts''
     = js_get_opt (tagged_manifest ''1.0.0'' mem_tag) ''artifacts''
   \<and> saveManifest (example_env [] []) Map.empty (tagged_manifest ''1.0.0'' (JStr ''env=prod''))
       ''manifest.json'' (ASSEMBLY_SCHEMA (example_env [] []))
       (Some (patchStackTagsOnWrite (example_env [] [])))
     = Inl (TypeError ''Cannot use in operator to search for Key'')"
proof -
  let ?e1 = "rejecting_env (stamped_manifest disk_tag)" and ?e2 = "rejecting_env (stamped_manifest mem_tag)"
  let ?m = "tagged_manifest ''1.0.0'' mem_tag"
  have s: "JSON_stringify ?e1 v n = example_stringify v" for v n
    by (simp add: rejecting_env_def example_env_def)
  from save_stamps_validates_then_patches
         [where env = ?e1 and manifest = ?m and sch = "ASSEMBLY_SCHEMA ?e1"
            and patch = "patchStackTagsOnWrite ?e1" and patched = "stamped_manifest disk_tag"
            and fs = Map.empty and filePath = "''manifest.json''"]
  have 1: "saveManifest ?e1 Map.empty ?m ''manifest.json'' (ASSEMBLY_SCHEMA ?e1)
             (Some (patchStackTagsOnWrite ?e1))
           = Inr [''manifest.json'' \<mapsto> example_stringify (stamped_manifest disk_tag)]"
    by (simp add: stamp_example write_patch_example rejecting_env_validate s)
  from save_stamps_validates_then_patches
         [where env = ?e2 and manifest = ?m and sch = "ASSEMBLY_SCHEMA ?e2"
            and preprocess = "Some (patchStackTagsOnWrite ?e2)"
            and e = "Error (''Invalid assembly manifest:'' @ [CHR 0x0A]
                    @ ''instance.artifacts.stack.type is not of a type(s) string'')"
            and fs = Map.empty and filePath = "''manifest.json''"]
  have 2: "saveManifest ?e2 Map.empty ?m ''manifest.json'' (ASSEMBLY_SCHEMA ?e2)
             (Some (patchStackTagsOnWrite ?e2))
           = Inl (Error (''Invalid assembly manifest:'' @ [CHR 0x0A]
                    @ ''instance.artifacts.stack.type is not of a type(s) string''))"
    by (simp add: stamp_example rejecting_env_validate)
  from save_stamps_validates_then_patches
         [where env = "example_env [] []" and manifest = ?m and k = "''artifacts''"]
  have 3: "js_get_opt (withVersion (example_env [] []) ?m) ''artifacts'' = js_get_opt ?m ''artifacts''"
    by (simp add: tagged_manifest_def)
  let ?e3 = "example_env [] []" and ?bad = "tagged_manifest ''1.0.0'' (JStr ''env=prod'')"
  have v: "validate ?e3 (withVersion ?e3 ?bad) (ASSEMBLY_SCHEMA ?e3) None = Inr ()"
    by code_simp
  have f: "patchStackTagsOnWrite ?e3 (withVersion ?e3 ?bad)
             = Inl (TypeError ''Cannot use in operator to search for Key'')"
    by (simp add: stamp_example_env)
      (simp add: patchStackTagsOnWrite_def replaceStackTags_def replaceArtifact_def replaceEntry_def
        mapValues_def write_tags_def stamped_manifest_def tagged_manifest_def example_env_def)
  from save_stamps_validates_then_patches
         [where env = ?e3 and manifest = ?bad and sch = "ASSEMBLY_SCHEMA ?e3"
            and patch = "patchStackTagsOnWrite ?e3"
            and e' = "TypeError ''Cannot use in operator to search for Key''"
            and fs = Map.empty and filePath = "''manifest.json''"]
  have 4: "saveManifest ?e3 Map.empty ?bad ''manifest.json'' (ASSEMBLY_SCHEMA ?e3)
             (Some (patchStackTagsOnWrite ?e3))
           = Inl (TypeError ''Cannot use in operator to search for Key'')"
    using v f by simp
  from 1 2 3 4 rejecting_env_validate(2) show ?thesis by simp
qed

text \<open>
  Claim C3, amended. Loading an asset manifest applies no patch: it returns an object exactly
  when the file exists, parses to this object and this object passes validation against
  the asset schema.
\<close>

theorem asset_load_applies_no_patch:
  "loadAssetManifest env fs filePath = Inr obj
     \<longleftrightarrow> (\<exists>contents. fs filePath = Some contents \<and> JSON_parse env contents = Inr obj
           \<and> validate env obj (ASSETS_SCHEMA env) None = Inr ())"
  by (auto simp: loadAssetManifest_def loadManifest_def split: option.splits sum.splits)

lemma example_parse_self: "example_parse [d] (example_stringify d) = Inr d"
  by (simp add: example_parse_def)

lemma read_patch_example:
  "patchStackTagsOnRead (example_env ds es) (tagged_manifest v disk_tag) = Inr (tagged_manifest v mem_tag)"
  "patchStackTagsOnRead (example_env ds es) (stamped_manifest disk_tag) = Inr (stamped_manifest mem_tag)"
  by (simp_all add: patchStackTagsOnRead_def replaceStackTags_def replaceArtifact_def replaceEntry_def
        mapValues_def noUndefined_def read_tags_def read_tag_def stamped_manifest_def tagged_manifest_def
        mem_tag_def disk_tag_def example_env_def)

lemma example_validate_tagged:
  "validate (example_env [tagged_manifest ''38.0.0'' disk_tag] []) (tagged_manifest ''38.0.0'' disk_tag)
     (ASSETS_SCHEMA (example_env [tagged_manifest ''38.0.0'' disk_tag] [])) None = Inr ()"
  "validate (example_env [tagged_manifest ''38.0.0'' disk_tag] []) (tagged_manifest ''38.0.0'' mem_tag)
     (ASSETS_SCHEMA (example_env [tagged_manifest ''38.0.0'' disk_tag] [])) None = Inr ()"
  "validate (example_env [tagged_manifest ''38.0.0'' disk_tag] []) (stamped_manifest disk_tag)
     (ASSETS_SCHEMA (example_env [tagged_manifest ''38.0.0'' disk_tag] [])) None = Inr ()"
  by code_simp+

text \<open>
  The claim C3 as it is stated fails on an asset manifest file that holds a stack tag:
  \<^verbatim>\<open>loadAssetManifest\<close> returns the tag in the casing of the disk, where a load with the read
  patch returns it in the casing of the object model; and \<^verbatim>\<open>saveAssetManifest\<close> writes the
  manifest with the read patch applied, where a save without a patch writes it as it is.
\<close>

theorem asset_patch_on_load_counterexample:
  "loadAssetManifest (example_env [tagged_manifest ''38.0.0'' disk_tag] [])
       [''asset.json'' \<mapsto> example_stringify (tagged_manifest ''38.0.0'' disk_tag)] ''asset.json''
     = Inr (tagged_manifest ''38.0.0'' disk_tag)
   \<and> loadManifest (example_env [tagged_manifest ''38.0.0'' disk_tag] [])
       [''asset.json'' \<mapsto> example_stringify (tagged_manifest ''38.0.0'' disk_tag)] ''asset.json''
       (ASSETS_SCHEMA (example_env [tagged_manifest ''38.0.0'' disk_tag] []))
       (Some (patchStackTagsOnRead (example_env [tagged_manifest ''38.0.0'' disk_tag] []))) None
     = Inr (tagged_manifest ''38.0.0'' mem_tag)
   \<and> tagged_manifest ''38.0.0'' disk_tag \<noteq> tagged_manifest ''38.0.0'' mem_tag
   \<and> saveAssetManifest (example_env [tagged_manifest ''38.0.0'' disk_tag] []) Map.empty
       (tagged_manifest ''1.0.0'' disk_tag) ''asset.json''
     = Inr [''asset.json'' \<mapsto> example_stringify (stamped_manifest mem_tag)]
   \<and> saveManifest (example_env [tagged_manifest ''38.0.0'' disk_tag] []) Map.empty
       (tagged_manifest ''1.0.0'' disk_tag) ''asset.json''
       (ASSETS_SCHEMA (example_env [tagged_manifest ''38.0.0'' disk_tag] [])) None
     = Inr [''asset.json'' \<mapsto> example_stringify (stamped_manifest disk_tag)]
   \<and> example_stringify (stamped_manifest mem_tag) \<noteq> example_stringify (stamped_manifest disk_tag)"
proof -
  let ?env = "example_env [tagged_manifest ''38.0.0'' disk_tag] []"
  have p: "JSON_parse ?env (example_stringify (tagged_manifest ''38.0.0'' disk_tag))
             = Inr (tagged_manifest ''38.0.0'' disk_tag)"
    by (simp add: example_env_def example_parse_self)
  have s: "JSON_stringify ?env v n = example_stringify v" for v n
    by (simp add: example_env_def)
  have 1: "loadAssetManifest ?env
       [''asset.json'' \<mapsto> example_stringify (tagged_manifest ''38.0.0'' disk_tag)] ''asset.json''
     = Inr (tagged_manifest ''38.0.0'' disk_tag)"
    by (simp add: loadAssetManifest_def loadManifest_def p example_validate_tagged)
  have 2: "loadManifest ?env
       [''asset.json'' \<mapsto> example_stringify (tagged_manifest ''38.0.0'' disk_tag)] ''asset.json''
       (ASSETS_SCHEMA ?env) (Some (patchStackTagsOnRead ?env)) None
     = Inr (tagged_manifest ''38.0.0'' mem_tag)"
    by (simp add: loadManifest_def p read_patch_example example_validate_tagged)
  have 3: "tagged_manifest ''38.0.0'' disk_tag \<noteq> tagged_manifest ''38.0.0'' mem_tag"
    by (simp add: tagged_manifest_def disk_tag_def mem_tag_def)
  have 4: "saveAssetManifest ?env Map.empty (tagged_manifest ''1.0.0'' disk_tag) ''asset.json''
     = Inr [''asset.json'' \<mapsto> example_stringify (stamped_manifest mem_tag)]"
    by (simp add: saveAssetManifest_def saveManifest_def stamp_example_env read_patch_example
          example_validate_tagged s)
  have 5: "saveManifest ?env Map.empty (tagged_manifest ''1.0.0'' disk_tag) ''asset.json''
       (ASSETS_SCHEMA ?env) None
     = Inr [''asset.json'' \<mapsto> example_stringify (stamped_manifest disk_tag)]"
    by (simp add: saveManifest_def stamp_example_env example_validate_tagged s)
  have 6: "example_stringify (stamped_manifest mem_tag) \<noteq> example_stringify (stamped_manifest disk_tag)"
    by code_simp
  from 1 2 3 4 5 6 show ?thesis by blast
qed

theorem asset_load_applies_no_patch_witness:
  "loadAssetManifest (example_env [tagged_manifest ''38.0.0'' disk_tag] [])
       [''asset.json'' \<mapsto> example_stringify (tagged_manifest ''38.0.0'' disk_tag)] ''asset.json''
     = Inr (tagged_manifest ''38.0.0'' disk_tag)"
proof -
  let ?env = "example_env [tagged_manifest ''38.0.0'' disk_tag] []"
  have p: "JSON_parse ?env (example_stringify (tagged_manifest ''38.0.0'' disk_tag))
             = Inr (tagged_manifest ''38.0.0'' disk_tag)"
    by (simp add: example_env_def example_parse_self)
  show ?thesis
    unfolding asset_load_applies_no_patch
    by (simp add: p example_validate_tagged)
qed

end
